theory Spec2Isabelle
  imports Complex_Main "HOL-Library.Sublist"
begin

section \<open>StarMap: the sky-map construction of dodo.py\<close>

text \<open>
  The script computes, for an observer and an instant, the altitude and azimuth of five
  solar-system bodies and of the bright stars of the Hipparcos catalogue, keeps the ones
  above the horizon and describes a polar chart of them.

  Modelling decisions.
  \<^item> A Python float is the real number it stands for. Comparisons are exact; the
    arithmetic of lines 74, 76 and 94 rounds every result to float64 (\<open>fl\<close> below). NaN,
    infinities and subnormal numbers are not modelled.
  \<^item> \<^verbatim>\<open>np.exp\<close> is NumPy's and is a parameter of the model (\<open>np_exp\<close>); a theorem that needs a
    property of it says so.
  \<^item> Skyfield is outside the script. The chain
    \<^verbatim>\<open>location.at(t).observe(obj).apparent().altaz()\<close> is a parameter of the model
    (type \<open>ephemeris\<close>): given observer, instant and target it yields altitude (degrees),
    azimuth (degrees) and distance, or \<open>None\<close> when the library raises.
  \<^item> The star catalogue (the pandas data frame \<^verbatim>\<open>stars\<close>) is a parameter too: the list of
    its (index, row) pairs in iteration order.
  \<^item> Exceptions are values: every function that can raise returns \<open>error + 'a\<close>.
\<close>

subsection \<open>Errors\<close>

datatype error =
    KeyError string      \<comment> \<open>a dict lookup with a missing key\<close>
  | ValueError string    \<comment> \<open>\<^verbatim>\<open>datetime.fromisoformat\<close> rejecting its argument\<close>
  | LibraryError         \<comment> \<open>an exception raised inside the ephemeris library\<close>

subsection \<open>Catalogue rows, targets, observers and instants\<close>

text \<open>
  A row of the Hipparcos data frame. The script reads only the column \<^verbatim>\<open>magnitude\<close>; the
  remaining columns are handed to \<^verbatim>\<open>Star.from_dataframe\<close> unread.
\<close>

record star_row =
  magnitude :: real
  other_columns :: "real list"

text \<open>
  What can be observed: \<^verbatim>\<open>planets[naif_id]\<close> is \<open>Body naif_id\<close>,
  \<^verbatim>\<open>Star.from_dataframe(row)\<close> is \<open>Star row\<close>.
\<close>

datatype target = Body int | Star star_row

text \<open>\<^verbatim>\<open>earth + Topos(latitude_degrees=lat, longitude_degrees=lon)\<close>\<close>

datatype observer = Topos real real

text \<open>\<^verbatim>\<open>ts.utc(year, month, day, hour, minute)\<close>\<close>

datatype instant = utc int int int int int

type_synonym ephemeris = "observer \<Rightarrow> instant \<Rightarrow> target \<Rightarrow> (real \<times> real \<times> real) option"

type_synonym catalog = "(int \<times> star_row) list"

subsection \<open>Planet table (lines 26-35)\<close>

definition planet_ids :: "(string \<times> int) list" where
  "planet_ids =
     [(''Mercury'', 199),
      (''Venus'', 299),
      (''Mars'', 499),
      (''Moon'', 301),
      (''Sun'', 10)]"

definition bodies :: "string \<rightharpoonup> target" where
  "bodies = map_of (map (\<lambda>(name, naif_id). (name, Body naif_id)) planet_ids)"

subsection \<open>Projection (lines 40-43)\<close>

definition to_altaz :: "ephemeris \<Rightarrow> target \<Rightarrow> observer \<Rightarrow> instant \<Rightarrow> error + real \<times> real" where
  "to_altaz eph obj location t =
     (case eph location t obj of
        None \<Rightarrow> Inl LibraryError
      | Some (alt, az, _) \<Rightarrow> Inr (alt, az))"

subsection \<open>The chart description\<close>

text \<open>
  The hover label of a star, \<^verbatim>\<open>f"HIP {hip} (mag {mag:.2f})"\<close>: the catalogue number and the
  magnitude that Python prints with two decimals. The printing is Python's; the model keeps
  the two values.
\<close>

datatype hover = HIP int real

text \<open>
  The keyword arguments of Plotly become record fields under their own names, except
  \<^verbatim>\<open>size\<close> (here \<open>size_m\<close>) and \<^verbatim>\<open>range\<close> (here \<open>range_ax\<close>), which are constants of HOL, and
  the \<^verbatim>\<open>color\<close>, \<^verbatim>\<open>width\<close> and \<^verbatim>\<open>showgrid\<close> of the nested dictionaries, which are prefixed
  by the dictionary they belong to. A key that a call does not pass is \<open>None\<close>.
\<close>

record marker_line =
  line_color :: string
  line_width :: real

record marker =
  size_m :: real
  color :: string
  opacity :: "real option"
  line :: "marker_line option"

record scatterpolar =
  r :: "real list"
  theta :: "real list"
  mode :: string
  marker :: marker
  hovertext :: "hover option"
  hoverinfo :: "string option"

record radialaxis =
  visible :: bool
  range_ax :: "real list"
  radial_showgrid :: bool

record angularaxis =
  direction :: string
  rotation :: real
  showline :: bool
  showticklabels :: bool
  angular_showgrid :: bool

record polar =
  bgcolor :: string
  radialaxis :: radialaxis
  angularaxis :: angularaxis

record layout =
  polar :: "polar option"
  showlegend :: "bool option"
  paper_bgcolor :: "string option"
  plot_bgcolor :: "string option"

record figure =
  data :: "scatterpolar list"
  layout :: layout

text \<open>\<^verbatim>\<open>go.Figure()\<close>: no trace, nothing set in the layout.\<close>

definition Figure :: figure where
  "Figure =
     \<lparr>data = [],
      layout = \<lparr>polar = None, showlegend = None, paper_bgcolor = None, plot_bgcolor = None\<rparr>\<rparr>"

definition add_trace :: "figure \<Rightarrow> scatterpolar \<Rightarrow> figure" where
  "add_trace fig tr = fig\<lparr>data := data fig @ [tr]\<rparr>"

subsection \<open>Collecting the visible objects (lines 50-65)\<close>

definition selected_planets :: "string list" where
  "selected_planets = [''Mercury'', ''Venus'', ''Mars'', ''Moon'', ''Sun'']"

text \<open>The loop of lines 53-56; the last argument is \<^verbatim>\<open>planet_data\<close> so far.\<close>

fun planet_loop ::
  "ephemeris \<Rightarrow> observer \<Rightarrow> instant \<Rightarrow> string list \<Rightarrow> (string \<times> real \<times> real) list
    \<Rightarrow> error + (string \<times> real \<times> real) list" where
  "planet_loop eph location t [] planet_data = Inr planet_data"
| "planet_loop eph location t (name # names) planet_data =
     (case bodies name of
        None \<Rightarrow> Inl (KeyError name)
      | Some obj \<Rightarrow>
          (case to_altaz eph obj location t of
             Inl e \<Rightarrow> Inl e
           | Inr (alt, az) \<Rightarrow>
               planet_loop eph location t names
                 (if alt > 0 then planet_data @ [(name, alt, az)] else planet_data)))"

text \<open>\<^verbatim>\<open>stars[stars['magnitude'] < 6]\<close>\<close>

definition bright_stars :: "catalog \<Rightarrow> catalog" where
  "bright_stars stars = filter (\<lambda>(hip, row). magnitude row < 6) stars"

text \<open>The loop of lines 61-65; the last argument is \<^verbatim>\<open>star_data\<close> so far.\<close>

fun star_loop ::
  "ephemeris \<Rightarrow> observer \<Rightarrow> instant \<Rightarrow> catalog \<Rightarrow> (real \<times> real \<times> real \<times> int) list
    \<Rightarrow> error + (real \<times> real \<times> real \<times> int) list" where
  "star_loop eph location t [] star_data = Inr star_data"
| "star_loop eph location t ((hip, row) # rows) star_data =
     (case to_altaz eph (Star row) location t of
        Inl e \<Rightarrow> Inl e
      | Inr (alt, az) \<Rightarrow>
          star_loop eph location t rows
            (if alt > 0 then star_data @ [(magnitude row, alt, az, hip)] else star_data))"

subsection \<open>Float arithmetic\<close>

text \<open>
  A float64 has a significand of 53 bits, and an operation on floats returns the float
  nearest to the exact result, the one with the even significand when two are equally near.
  \<open>rne\<close> rounds a real number to the nearest integer in this way; \<open>fl\<close> scales a number
  so that its significand has 53 bits before the binary point, rounds, and scales back. The
  exponent is not bounded: what float64 does beyond about \<open>1.8e308\<close> and below about
  \<open>2.2e-308\<close> is not modelled.
\<close>

definition rne :: "real \<Rightarrow> int" where
  "rne y =
     (let n = \<lfloor>y\<rfloor>
      in if y - of_int n < 1 / 2 then n
         else if 1 / 2 < y - of_int n then n + 1
         else if even n then n else n + 1)"

definition fl :: "real \<Rightarrow> real" where
  "fl x =
     (if x = 0 then 0
      else (let e = \<lfloor>log 2 \<bar>x\<bar>\<rfloor> - 52
            in of_int (rne (x / 2 powi e)) * 2 powi e))"

text \<open>\<^verbatim>\<open>a - b\<close> and \<^verbatim>\<open>a * b\<close> on floats.\<close>

definition fsub :: "real \<Rightarrow> real \<Rightarrow> real" where
  "fsub a b = fl (a - b)"

definition fmul :: "real \<Rightarrow> real \<Rightarrow> real" where
  "fmul a b = fl (a * b)"

subsection \<open>Drawing (lines 70-112)\<close>

text \<open>
  Line 74. The literal \<^verbatim>\<open>0.4\<close> is the float nearest to 0.4; 0.5, 1.0 and 12 are floats.
\<close>

definition star_size :: "(real \<Rightarrow> real) \<Rightarrow> real \<Rightarrow> real" where
  "star_size np_exp mag = max 0.5 (fmul 12 (np_exp (fmul (- fl 0.4) (fsub mag 1.0))))"

text \<open>The trace of one star (lines 75-82).\<close>

definition star_scatter :: "(real \<Rightarrow> real) \<Rightarrow> real \<times> real \<times> real \<times> int \<Rightarrow> scatterpolar" where
  "star_scatter np_exp = (\<lambda>(mag, alt, az, hip).
     \<lparr>r = [fsub 90 alt],
      theta = [az],
      mode = ''markers'',
      marker = \<lparr>size_m = star_size np_exp mag, color = ''white'', opacity = Some 0.8, line = None\<rparr>,
      hovertext = Some (HIP hip mag),
      hoverinfo = Some ''text''\<rparr>)"

fun star_traces ::
  "(real \<Rightarrow> real) \<Rightarrow> figure \<Rightarrow> (real \<times> real \<times> real \<times> int) list \<Rightarrow> figure" where
  "star_traces np_exp fig [] = fig"
| "star_traces np_exp fig (s # star_data) =
     star_traces np_exp (add_trace fig (star_scatter np_exp s)) star_data"

definition planet_colors :: "string \<rightharpoonup> string" where
  "planet_colors =
     map_of
       [(''Mercury'', ''lightgray''),
        (''Venus'', ''lightgray''),
        (''Mars'', ''lightgray''),
        (''Jupiter'', ''lightgray''),
        (''Saturn'', ''lightgray'')]"

text \<open>\<^verbatim>\<open>d.get(key, default)\<close>\<close>

definition get_default :: "('k \<rightharpoonup> 'v) \<Rightarrow> 'k \<Rightarrow> 'v \<Rightarrow> 'v" where
  "get_default d k dflt = (case d k of None \<Rightarrow> dflt | Some v \<Rightarrow> v)"

text \<open>The trace of one planet (lines 93-99).\<close>

definition planet_scatter :: "string \<times> real \<times> real \<Rightarrow> scatterpolar" where
  "planet_scatter = (\<lambda>(name, alt, az).
     \<lparr>r = [fsub 90 alt],
      theta = [az],
      mode = ''markers+text'',
      marker =
        \<lparr>size_m = 15,
         color = get_default planet_colors name ''lightgray'',
         opacity = None,
         line = Some \<lparr>line_color = ''black'', line_width = 1\<rparr>\<rparr>,
      hovertext = None,
      hoverinfo = None\<rparr>)"

fun planet_traces :: "figure \<Rightarrow> (string \<times> real \<times> real) list \<Rightarrow> figure" where
  "planet_traces fig [] = fig"
| "planet_traces fig (p # planet_data) = planet_traces (add_trace fig (planet_scatter p)) planet_data"

text \<open>The layout of lines 102-112.\<close>

definition sky_layout :: layout where
  "sky_layout =
     \<lparr>polar = Some
        \<lparr>bgcolor = ''black'',
         radialaxis = \<lparr>visible = False, range_ax = [0, 90], radial_showgrid = False\<rparr>,
         angularaxis =
           \<lparr>direction = ''clockwise'', rotation = 180, showline = False,
            showticklabels = False, angular_showgrid = False\<rparr>\<rparr>,
      showlegend = Some False,
      paper_bgcolor = Some ''black'',
      plot_bgcolor = Some ''black''\<rparr>"

definition update_layout :: "figure \<Rightarrow> figure" where
  "update_layout fig =
     fig\<lparr>layout := (layout fig)
       \<lparr>polar := polar sky_layout,
        showlegend := showlegend sky_layout,
        paper_bgcolor := paper_bgcolor sky_layout,
        plot_bgcolor := plot_bgcolor sky_layout\<rparr>\<rparr>"

subsection \<open>The sky map (lines 45-114)\<close>

definition make_sky_map ::
  "(real \<Rightarrow> real) \<Rightarrow> ephemeris \<Rightarrow> catalog \<Rightarrow> real \<Rightarrow> real \<Rightarrow> int \<Rightarrow> int \<Rightarrow> int \<Rightarrow> int
    \<Rightarrow> error + figure" where
  "make_sky_map np_exp eph stars lat lon year month day hour =
     (let location = Topos lat lon;
          t = utc year month day hour 0
      in case planet_loop eph location t selected_planets [] of
           Inl e \<Rightarrow> Inl e
         | Inr planet_data \<Rightarrow>
             (case star_loop eph location t (bright_stars stars) [] of
                Inl e \<Rightarrow> Inl e
              | Inr star_data \<Rightarrow>
                  Inr (update_layout
                         (planet_traces (star_traces np_exp Figure star_data) planet_data))))"

subsection \<open>The request handler (lines 121-166 and 208-212)\<close>

definition locations :: "string \<rightharpoonup> real \<times> real" where
  "locations =
     map_of
       [(''San Francisco'', (37.7749, -122.4194)),
        (''New York'', (40.7128, -74.0060)),
        (''Toronto'', (43.651070, -79.347015)),
        (''Mexico City'', (19.4326, -99.1332)),
        (''Buenos Aires'', (-34.6037, -58.3816)),
        (''Rio de Janeiro'', (-22.9068, -43.1729)),
        (''Santiago'', (-33.4489, -70.6693)),
        (''London'', (51.5074, -0.1278)),
        (''Paris'', (48.8566, 2.3522)),
        (''Berlin'', (52.5200, 13.4050)),
        (''Rome'', (41.9028, 12.4964)),
        (''Moscow'', (55.7558, 37.6173)),
        (''Cairo'', (30.0444, 31.2357)),
        (''Cape Town'', (-33.9249, 18.4241)),
        (''Nairobi'', (-1.2921, 36.8219)),
        (''Lagos'', (6.5244, 3.3792)),
        (''Istanbul'', (41.0082, 28.9784)),
        (''Dubai'', (25.276987, 55.296249)),
        (''Jerusalem'', (31.7683, 35.2137)),
        (''Tokyo'', (35.6762, 139.6503)),
        (''Beijing'', (39.9042, 116.4074)),
        (''New Delhi'', (28.6139, 77.2090)),
        (''Bangkok'', (13.7563, 100.5018)),
        (''Singapore'', (1.3521, 103.8198)),
        (''Sydney'', (-33.8688, 151.2093)),
        (''Auckland'', (-36.8485, 174.7633)),
        (''Honolulu'', (21.3069, -157.8583)),
        (''Reykjavik'', (64.1355, -21.8954)),
        (''Anchorage'', (61.2181, -149.9003))]"

text \<open>
  The fields of a \<^verbatim>\<open>datetime\<close> that the handler reads. \<^verbatim>\<open>datetime.fromisoformat\<close> belongs to
  Python's library and is a parameter of the handler: \<open>None\<close> when it raises.
\<close>

record datetime =
  dt_year :: int
  dt_month :: int
  dt_day :: int

definition update_map ::
  "(string \<Rightarrow> datetime option) \<Rightarrow> (real \<Rightarrow> real) \<Rightarrow> ephemeris \<Rightarrow> catalog \<Rightarrow> string \<Rightarrow> string \<Rightarrow> int
    \<Rightarrow> error + figure" where
  "update_map fromisoformat np_exp eph stars city date hour =
     (case locations city of
        None \<Rightarrow> Inl (KeyError city)
      | Some (lat, lon) \<Rightarrow>
          (case fromisoformat date of
             None \<Rightarrow> Inl (ValueError date)
           | Some dt \<Rightarrow>
               make_sky_map np_exp eph stars lat lon (dt_year dt) (dt_month dt) (dt_day dt) hour))"

subsection \<open>Auxiliary functions for the proofs\<close>

text \<open>What one pass of the planet loop contributes for one name.\<close>

definition planet_entry :: "ephemeris \<Rightarrow> observer \<Rightarrow> instant \<Rightarrow> string \<Rightarrow> (string \<times> real \<times> real) list" where
  "planet_entry eph location t name =
     (case bodies name of
        None \<Rightarrow> []
      | Some obj \<Rightarrow>
          (case to_altaz eph obj location t of
             Inl e \<Rightarrow> []
           | Inr (alt, az) \<Rightarrow> if alt > 0 then [(name, alt, az)] else []))"

text \<open>What one pass of the star loop contributes for one catalogue row.\<close>

definition star_entry :: "ephemeris \<Rightarrow> observer \<Rightarrow> instant \<Rightarrow> int \<times> star_row \<Rightarrow> (real \<times> real \<times> real \<times> int) list" where
  "star_entry eph location t = (\<lambda>(hip, row).
     (case to_altaz eph (Star row) location t of
        Inl e \<Rightarrow> []
      | Inr (alt, az) \<Rightarrow> if alt > 0 then [(magnitude row, alt, az, hip)] else []))"

subsection \<open>Sample inputs\<close>

text \<open>
  Two small catalogues and four ephemerides on which the theorems below are exercised.
  Under \<open>sample_eph\<close> Mercury and the Sun are below the horizon, Venus is at altitude 25,
  Mars at the zenith and the Moon exactly on the horizon; stars brighter than magnitude 3
  stand at altitude 60, the other bright stars exactly on the horizon, and the library
  raises on every star of magnitude 6 or more. \<open>sample_eph_faint\<close> differs only on those
  faint stars, which it puts at altitude 45. Under \<open>night_eph\<close> everything is below the
  horizon, under \<open>grazing_eph\<close> everything is just above it, at altitude \<open>2^-60\<close>. The two
  stars of \<open>twin_stars\<close> have the magnitudes 0 and \<open>2^-60\<close>. Where the theorems are
  exercised, \<open>np_exp\<close> is the exponential function itself.
\<close>

definition sample_stars :: catalog where
  "sample_stars =
     [(1, \<lparr>magnitude = 1, other_columns = []\<rparr>),
      (2, \<lparr>magnitude = 4, other_columns = []\<rparr>),
      (3, \<lparr>magnitude = 6, other_columns = []\<rparr>),
      (4, \<lparr>magnitude = 2, other_columns = []\<rparr>)]"

definition sample_eph :: ephemeris where
  "sample_eph location t obj =
     (case obj of
        Body n \<Rightarrow>
          (if n = 299 then Some (25, 250, 1)
           else if n = 499 then Some (90, 0, 1)
           else if n = 301 then Some (0, 90, 1)
           else Some (- 20, 300, 1))
      | Star row \<Rightarrow>
          (if magnitude row < 3 then Some (60, 45, 1)
           else if magnitude row < 6 then Some (0, 10, 1)
           else None))"

definition sample_eph_faint :: ephemeris where
  "sample_eph_faint location t obj =
     (case obj of
        Body n \<Rightarrow> sample_eph location t obj
      | Star row \<Rightarrow>
          (if magnitude row < 6 then sample_eph location t obj else Some (45, 0, 1)))"

definition night_eph :: ephemeris where
  "night_eph location t obj = Some (- 10, 0, 1)"

definition grazing_eph :: ephemeris where
  "grazing_eph location t obj = Some (1 / 2 ^ 60, 180, 1)"

definition twin_stars :: catalog where
  "twin_stars =
     [(1, \<lparr>magnitude = 0, other_columns = []\<rparr>),
      (2, \<lparr>magnitude = 1 / 2 ^ 60, other_columns = []\<rparr>)]"

definition sample_fromisoformat :: "string \<Rightarrow> datetime option" where
  "sample_fromisoformat date =
     (if date = ''2024-06-21'' then Some \<lparr>dt_year = 2024, dt_month = 6, dt_day = 21\<rparr> else None)"

section \<open>Lemmas about the loops\<close>

lemma data_add_trace: "data (add_trace fig tr) = data fig @ [tr]"
  by (simp add: add_trace_def)

lemma layout_add_trace: "layout (add_trace fig tr) = layout fig"
  by (simp add: add_trace_def)

lemma data_star_traces: "data (star_traces np_exp fig star_data) = data fig @ map (star_scatter np_exp) star_data"
  by (induction star_data arbitrary: fig) (simp_all add: data_add_trace)

lemma layout_star_traces: "layout (star_traces np_exp fig star_data) = layout fig"
  by (induction star_data arbitrary: fig) (simp_all add: layout_add_trace)

lemma data_planet_traces:
  "data (planet_traces fig planet_data) = data fig @ map planet_scatter planet_data"
  by (induction planet_data arbitrary: fig) (simp_all add: data_add_trace)

lemma layout_planet_traces: "layout (planet_traces fig planet_data) = layout fig"
  by (induction planet_data arbitrary: fig) (simp_all add: layout_add_trace)

lemma update_layout_eq: "update_layout fig = \<lparr>data = data fig, layout = sky_layout\<rparr>"
  by (cases fig) (simp add: update_layout_def sky_layout_def)

lemma chart_eq:
  "update_layout (planet_traces (star_traces np_exp Figure star_data) planet_data) =
     \<lparr>data = map (star_scatter np_exp) star_data @ map planet_scatter planet_data, layout = sky_layout\<rparr>"
  by (simp add: update_layout_eq data_planet_traces data_star_traces Figure_def)

lemma planet_loop_Inr:
  "planet_loop eph location t names acc = Inr pd \<Longrightarrow>
     pd = acc @ concat (map (planet_entry eph location t) names)"
proof (induction names arbitrary: acc)
  case Nil
  then show ?case by simp
next
  case (Cons name names)
  from Cons.prems obtain obj alt az where
    b: "bodies name = Some obj" and p: "to_altaz eph obj location t = Inr (alt, az)"
    by (auto split: option.splits sum.splits)
  let ?acc = "if alt > 0 then acc @ [(name, alt, az)] else acc"
  from Cons.prems b p have "planet_loop eph location t names ?acc = Inr pd" by simp
  then have "pd = ?acc @ concat (map (planet_entry eph location t) names)" by (rule Cons.IH)
  moreover have "planet_entry eph location t name = (if alt > 0 then [(name, alt, az)] else [])"
    by (simp add: planet_entry_def b p)
  ultimately show ?case by simp
qed

lemma planet_loop_projected:
  "planet_loop eph location t names acc = Inr pd \<Longrightarrow> name \<in> set names \<Longrightarrow>
     \<exists>obj alt az. bodies name = Some obj \<and> to_altaz eph obj location t = Inr (alt, az)"
proof (induction names arbitrary: acc)
  case Nil
  then show ?case by simp
next
  case (Cons n names)
  from Cons.prems(1) obtain obj alt az where
    b: "bodies n = Some obj" and p: "to_altaz eph obj location t = Inr (alt, az)"
    by (auto split: option.splits sum.splits)
  show ?case
  proof (cases "name = n")
    case True
    with b p show ?thesis by blast
  next
    case False
    with Cons.prems(2) have "name \<in> set names" by simp
    moreover from Cons.prems(1) b p have
      "planet_loop eph location t names (if alt > 0 then acc @ [(n, alt, az)] else acc) = Inr pd"
      by simp
    ultimately show ?thesis by (rule Cons.IH [rotated])
  qed
qed

lemma to_altaz_Inl: "to_altaz eph obj location t = Inl e \<Longrightarrow> e = LibraryError"
  by (auto simp: to_altaz_def split: option.splits prod.splits)

lemma planet_loop_Inl:
  "planet_loop eph location t names acc = Inl e \<Longrightarrow>
     e = LibraryError \<or> (\<exists>name \<in> set names. bodies name = None \<and> e = KeyError name)"
proof (induction names arbitrary: acc)
  case Nil
  then show ?case by simp
next
  case (Cons n names)
  show ?case
  proof (cases "bodies n")
    case None
    with Cons.prems show ?thesis by simp
  next
    case (Some obj)
    show ?thesis
    proof (cases "to_altaz eph obj location t")
      case (Inl e')
      with Cons.prems Some have "e = e'" by simp
      with Inl show ?thesis by (simp add: to_altaz_Inl)
    next
      case (Inr p)
      obtain alt az where "p = (alt, az)" by (cases p)
      with Cons.prems Some Inr have
        "planet_loop eph location t names (if alt > 0 then acc @ [(n, alt, az)] else acc) = Inl e"
        by simp
      then have "e = LibraryError \<or> (\<exists>name \<in> set names. bodies name = None \<and> e = KeyError name)"
        by (rule Cons.IH)
      then show ?thesis by auto
    qed
  qed
qed

lemma star_loop_Inr:
  "star_loop eph location t rows acc = Inr sd \<Longrightarrow>
     sd = acc @ concat (map (star_entry eph location t) rows)"
proof (induction rows arbitrary: acc)
  case Nil
  then show ?case by simp
next
  case (Cons x rows)
  obtain hip row where x: "x = (hip, row)" by (cases x)
  from Cons.prems x obtain alt az where
    p: "to_altaz eph (Star row) location t = Inr (alt, az)"
    by (auto split: sum.splits)
  let ?acc = "if alt > 0 then acc @ [(magnitude row, alt, az, hip)] else acc"
  from Cons.prems x p have "star_loop eph location t rows ?acc = Inr sd" by simp
  then have "sd = ?acc @ concat (map (star_entry eph location t) rows)" by (rule Cons.IH)
  moreover have "star_entry eph location t x = (if alt > 0 then [(magnitude row, alt, az, hip)] else [])"
    by (simp add: star_entry_def x p)
  ultimately show ?case by simp
qed

lemma star_loop_projected:
  "star_loop eph location t rows acc = Inr sd \<Longrightarrow> (hip, row) \<in> set rows \<Longrightarrow>
     \<exists>alt az. to_altaz eph (Star row) location t = Inr (alt, az)"
proof (induction rows arbitrary: acc)
  case Nil
  then show ?case by simp
next
  case (Cons x rows)
  obtain h w where x: "x = (h, w)" by (cases x)
  from Cons.prems(1) x obtain alt az where
    p: "to_altaz eph (Star w) location t = Inr (alt, az)"
    by (auto split: sum.splits)
  show ?case
  proof (cases "(hip, row) = x")
    case True
    with x p show ?thesis by blast
  next
    case False
    with Cons.prems(2) have "(hip, row) \<in> set rows" by simp
    moreover from Cons.prems(1) x p have
      "star_loop eph location t rows (if alt > 0 then acc @ [(magnitude w, alt, az, h)] else acc) = Inr sd"
      by simp
    ultimately show ?thesis by (rule Cons.IH [rotated])
  qed
qed

lemma star_loop_Inl:
  "star_loop eph location t rows acc = Inl e \<Longrightarrow> e = LibraryError"
proof (induction rows arbitrary: acc)
  case Nil
  then show ?case by simp
next
  case (Cons x rows)
  obtain h w where x: "x = (h, w)" by (cases x)
  show ?case
  proof (cases "to_altaz eph (Star w) location t")
    case (Inl e')
    with Cons.prems x have "e = e'" by simp
    with Inl show ?thesis by (simp add: to_altaz_Inl)
  next
    case (Inr p)
    obtain alt az where "p = (alt, az)" by (cases p)
    with Cons.prems x Inr have
      "star_loop eph location t rows (if alt > 0 then acc @ [(magnitude w, alt, az, h)] else acc) = Inl e"
      by simp
    then show ?thesis by (rule Cons.IH)
  qed
qed

lemma to_altaz_cong:
  "eph location t obj = eph' location t obj \<Longrightarrow>
     to_altaz eph obj location t = to_altaz eph' obj location t"
  by (simp add: to_altaz_def)

lemma star_loop_cong:
  "(\<And>hip row. (hip, row) \<in> set rows \<Longrightarrow> eph location t (Star row) = eph' location t (Star row))
    \<Longrightarrow> star_loop eph location t rows acc = star_loop eph' location t rows acc"
proof (induction rows arbitrary: acc)
  case Nil
  show ?case by simp
next
  case (Cons x rows)
  obtain hip row where x: "x = (hip, row)" by (cases x)
  have "to_altaz eph (Star row) location t = to_altaz eph' (Star row) location t"
    by (rule to_altaz_cong, rule Cons.prems [of hip]) (simp add: x)
  moreover have "star_loop eph location t rows acc' = star_loop eph' location t rows acc'" for acc'
  proof (rule Cons.IH)
    fix h w assume "(h, w) \<in> set rows"
    then show "eph location t (Star w) = eph' location t (Star w)"
      by (intro Cons.prems [of h]) simp
  qed
  ultimately show ?case by (simp add: x split: sum.splits prod.splits)
qed

lemma planet_loop_cong:
  "(\<And>n. eph location t (Body n) = eph' location t (Body n))
    \<Longrightarrow> planet_loop eph location t names acc = planet_loop eph' location t names acc"
proof (induction names arbitrary: acc)
  case Nil
  show ?case by simp
next
  case (Cons name names)
  have ih: "planet_loop eph location t names acc' = planet_loop eph' location t names acc'" for acc'
    by (rule Cons.IH, rule Cons.prems)
  show ?case
  proof (cases "bodies name")
    case None
    then show ?thesis by simp
  next
    case (Some obj)
    then obtain n where "obj = Body n"
      by (auto simp: bodies_def dest!: map_of_SomeD)
    then have "to_altaz eph obj location t = to_altaz eph' obj location t"
      using Cons.prems [of n] by (intro to_altaz_cong) simp
    with Some ih show ?thesis by (simp split: sum.splits prod.splits)
  qed
qed

lemma make_sky_map_Inr:
  assumes "make_sky_map np_exp eph stars lat lon year month day hour = Inr fig"
  shows "\<exists>planet_data star_data.
    planet_loop eph (Topos lat lon) (utc year month day hour 0) selected_planets [] = Inr planet_data \<and>
    star_loop eph (Topos lat lon) (utc year month day hour 0) (bright_stars stars) [] = Inr star_data \<and>
    fig = \<lparr>data = map (star_scatter np_exp) star_data @ map planet_scatter planet_data, layout = sky_layout\<rparr>"
proof (cases "planet_loop eph (Topos lat lon) (utc year month day hour 0) selected_planets []")
  case (Inl e)
  with assms show ?thesis by (simp add: make_sky_map_def)
next
  case pl: (Inr planet_data)
  show ?thesis
  proof (cases "star_loop eph (Topos lat lon) (utc year month day hour 0) (bright_stars stars) []")
    case (Inl e)
    with assms pl show ?thesis by (simp add: make_sky_map_def)
  next
    case (Inr star_data)
    with assms pl have "fig = update_layout (planet_traces (star_traces np_exp Figure star_data) planet_data)"
      by (simp add: make_sky_map_def)
    with pl Inr show ?thesis by (simp only: chart_eq) blast
  qed
qed

section \<open>Rounding to float64\<close>

lemma rne_floor_le: "\<lfloor>y\<rfloor> \<le> rne y"
  by (simp add: rne_def Let_def)

lemma rne_le_floor_Suc: "rne y \<le> \<lfloor>y\<rfloor> + 1"
  by (simp add: rne_def Let_def)

lemma rne_of_int: "rne (of_int n) = n"
  by (simp add: rne_def)

lemma rne_mono:
  assumes "y1 \<le> y2"
  shows "rne y1 \<le> rne y2"
proof (cases "\<lfloor>y1\<rfloor> = \<lfloor>y2\<rfloor>")
  case True
  with assms show ?thesis by (auto simp: rne_def Let_def)
next
  case False
  with assms have "\<lfloor>y1\<rfloor> < \<lfloor>y2\<rfloor>" using floor_mono [of y1 y2] by linarith
  then have "rne y1 \<le> \<lfloor>y2\<rfloor>" using rne_le_floor_Suc [of y1] by linarith
  then show ?thesis using rne_floor_le [of y2] by linarith
qed

lemma rne_le_int: "y \<le> of_int n \<Longrightarrow> rne y \<le> n"
  using rne_mono [of y "of_int n"] by (simp add: rne_of_int)

lemma rne_ge_int: "of_int n \<le> y \<Longrightarrow> n \<le> rne y"
  using rne_mono [of "of_int n" y] by (simp add: rne_of_int)

lemma rne_nearest:
  assumes "\<bar>y - of_int n\<bar> < 1 / 2"
  shows "rne y = n"
proof (cases "of_int n \<le> y")
  case True
  with assms have "\<lfloor>y\<rfloor> = n" by (intro floor_unique) linarith+
  with assms True show ?thesis by (simp add: rne_def)
next
  case False
  with assms have f: "\<lfloor>y\<rfloor> = n - 1" by (intro floor_unique) (simp, linarith+)
  from assms False have "1 / 2 < y - of_int (n - 1)" by simp
  with f show ?thesis by (simp add: rne_def)
qed

lemma two_powi_pos: "(0 :: real) < 2 powi e"
  by simp

lemma two_powr_int: "(2 :: real) powr of_int k = 2 powi k"
  by (rule powr_real_of_int') simp_all

lemma binade:
  assumes "x \<noteq> 0"
  shows "2 powi \<lfloor>log 2 \<bar>x\<bar>\<rfloor> \<le> \<bar>x\<bar>" and "\<bar>x\<bar> < 2 powi (\<lfloor>log 2 \<bar>x\<bar>\<rfloor> + 1)"
proof -
  have pos: "0 < \<bar>x\<bar>" using assms by simp
  have "2 powr of_int \<lfloor>log 2 \<bar>x\<bar>\<rfloor> \<le> 2 powr log 2 \<bar>x\<bar>"
    by (intro powr_mono) simp_all
  also have "2 powr log 2 \<bar>x\<bar> = \<bar>x\<bar>" using pos by simp
  finally show "2 powi \<lfloor>log 2 \<bar>x\<bar>\<rfloor> \<le> \<bar>x\<bar>"
    by (simp only: two_powr_int)
  have "log 2 \<bar>x\<bar> < of_int (\<lfloor>log 2 \<bar>x\<bar>\<rfloor> + 1)" by linarith
  then have "2 powr log 2 \<bar>x\<bar> < 2 powr of_int (\<lfloor>log 2 \<bar>x\<bar>\<rfloor> + 1)"
    by (intro powr_less_mono) simp_all
  also have "2 powr log 2 \<bar>x\<bar> = \<bar>x\<bar>" using pos by simp
  finally show "\<bar>x\<bar> < 2 powi (\<lfloor>log 2 \<bar>x\<bar>\<rfloor> + 1)"
    by (simp only: two_powr_int)
qed

lemma binade_unique:
  assumes "2 powi k \<le> \<bar>x\<bar>" and "\<bar>x\<bar> < 2 powi (k + 1)"
  shows "\<lfloor>log 2 \<bar>x\<bar>\<rfloor> = k"
proof -
  have pos: "0 < \<bar>x\<bar>" using two_powi_pos assms(1) by (rule less_le_trans)
  have "2 powr of_int k \<le> \<bar>x\<bar>" "\<bar>x\<bar> < 2 powr of_int (k + 1)"
    using assms by (simp_all only: two_powr_int)
  then have "of_int k \<le> log 2 \<bar>x\<bar>" "log 2 \<bar>x\<bar> < of_int (k + 1)"
    using pos by (simp_all only: le_log_iff log_less_iff)
  then show ?thesis by (intro floor_unique) simp_all
qed

lemma fl_0: "fl 0 = 0"
  by (simp add: fl_def)

lemma fl_eval:
  assumes "2 powi k \<le> \<bar>x\<bar>" and "\<bar>x\<bar> < 2 powi (k + 1)"
  shows "fl x = of_int (rne (x / 2 powi (k - 52))) * 2 powi (k - 52)"
proof -
  have "0 < \<bar>x\<bar>" using two_powi_pos assms(1) by (rule less_le_trans)
  then have "x \<noteq> 0" by simp
  then show ?thesis by (simp add: fl_def Let_def binade_unique [OF assms])
qed

text \<open>A positive number is rounded within its binade, a negative one too.\<close>

lemma fl_pos_bounds:
  assumes "0 < x" and "2 powi k \<le> x" and "x < 2 powi (k + 1)"
  shows "2 powi k \<le> fl x" and "fl x \<le> 2 powi (k + 1)"
proof -
  let ?u = "(2 :: real) powi (k - 52)"
  have u: "0 < ?u" by simp
  have f: "fl x = of_int (rne (x / ?u)) * ?u"
    using assms by (intro fl_eval) simp_all
  have lo: "(2 :: real) powi k = of_int (2 ^ 52) * ?u"
    by (simp add: power_int_diff)
  have hi: "(2 :: real) powi (k + 1) = of_int (2 ^ 53) * ?u"
    by (simp add: power_int_diff power_int_add)
  have "of_int (2 ^ 52) \<le> x / ?u" using assms(2) u unfolding lo by (simp add: field_simps)
  then have "2 ^ 52 \<le> rne (x / ?u)" by (rule rne_ge_int)
  then have "of_int (2 ^ 52) * ?u \<le> of_int (rne (x / ?u)) * ?u"
    using u by (intro mult_right_mono) simp_all
  then show "2 powi k \<le> fl x" unfolding f lo .
  have "x / ?u \<le> of_int (2 ^ 53)" using assms(3) u unfolding hi by (simp add: field_simps)
  then have "rne (x / ?u) \<le> 2 ^ 53" by (rule rne_le_int)
  then have "of_int (rne (x / ?u)) * ?u \<le> of_int (2 ^ 53) * ?u"
    using u by (intro mult_right_mono) simp_all
  then show "fl x \<le> 2 powi (k + 1)" unfolding f hi .
qed

lemma fl_neg_bounds:
  assumes "x < 0" and "2 powi k \<le> - x" and "- x < 2 powi (k + 1)"
  shows "- (2 powi (k + 1)) \<le> fl x" and "fl x \<le> - (2 powi k)"
proof -
  let ?u = "(2 :: real) powi (k - 52)"
  have u: "0 < ?u" by simp
  have f: "fl x = of_int (rne (x / ?u)) * ?u"
    using assms by (intro fl_eval) simp_all
  have lo: "(2 :: real) powi k = of_int (2 ^ 52) * ?u"
    by (simp add: power_int_diff)
  have hi: "(2 :: real) powi (k + 1) = of_int (2 ^ 53) * ?u"
    by (simp add: power_int_diff power_int_add)
  have "x / ?u \<le> of_int (- (2 ^ 52))" using assms(2) u unfolding lo by (simp add: field_simps)
  then have "rne (x / ?u) \<le> - (2 ^ 52)" by (rule rne_le_int)
  then have "of_int (rne (x / ?u)) * ?u \<le> of_int (- (2 ^ 52)) * ?u"
    using u by (intro mult_right_mono) simp_all
  then show "fl x \<le> - (2 powi k)" unfolding f lo by simp
  have "of_int (- (2 ^ 53)) \<le> x / ?u" using assms(3) u unfolding hi by (simp add: field_simps)
  then have "- (2 ^ 53) \<le> rne (x / ?u)" by (rule rne_ge_int)
  then have "of_int (- (2 ^ 53)) * ?u \<le> of_int (rne (x / ?u)) * ?u"
    using u by (intro mult_right_mono) simp_all
  then show "- (2 powi (k + 1)) \<le> fl x" unfolding f hi by simp
qed

lemma two_powi_mono: "a \<le> b \<Longrightarrow> (2 :: real) powi a \<le> 2 powi b"
  by (rule power_int_increasing) simp_all

lemma two_powi_less_cancel: "(2 :: real) powi a < 2 powi b \<Longrightarrow> a < b"
  using two_powi_mono [of b a] by (cases "a < b") simp_all

lemma fl_pos: "0 < x \<Longrightarrow> 0 < fl x"
proof -
  assume x: "0 < x"
  then have "2 powi \<lfloor>log 2 \<bar>x\<bar>\<rfloor> \<le> fl x"
    using binade [of x] by (intro fl_pos_bounds(1)) simp_all
  then show ?thesis using two_powi_pos [of "\<lfloor>log 2 \<bar>x\<bar>\<rfloor>"] by linarith
qed

lemma fl_neg: "x < 0 \<Longrightarrow> fl x < 0"
proof -
  assume x: "x < 0"
  then have "fl x \<le> - (2 powi \<lfloor>log 2 \<bar>x\<bar>\<rfloor>)"
    using binade [of x] by (intro fl_neg_bounds(2)) simp_all
  then show ?thesis using two_powi_pos [of "\<lfloor>log 2 \<bar>x\<bar>\<rfloor>"] by linarith
qed

lemma fl_mono_pos:
  assumes "0 < x" and "x \<le> y"
  shows "fl x \<le> fl y"
proof -
  let ?kx = "\<lfloor>log 2 \<bar>x\<bar>\<rfloor>" and ?ky = "\<lfloor>log 2 \<bar>y\<bar>\<rfloor>"
  have y: "0 < y" using assms by simp
  have bx: "2 powi ?kx \<le> x" "x < 2 powi (?kx + 1)" using binade [of x] assms(1) by simp_all
  have by': "2 powi ?ky \<le> y" "y < 2 powi (?ky + 1)" using binade [of y] y by simp_all
  have "log 2 x \<le> log 2 y" using assms by simp
  then have k: "?kx \<le> ?ky" using assms(1) y by (simp add: floor_mono)
  show ?thesis
  proof (cases "?kx = ?ky")
    case True
    let ?u = "(2 :: real) powi (?kx - 52)"
    have fx: "fl x = of_int (rne (x / ?u)) * ?u"
      using bx assms(1) by (intro fl_eval) simp_all
    have fy: "fl y = of_int (rne (y / ?u)) * ?u"
      using by' y unfolding True [symmetric] by (intro fl_eval) simp_all
    have "x / ?u \<le> y / ?u" using assms(2) by (simp add: divide_right_mono)
    then have "rne (x / ?u) \<le> rne (y / ?u)" by (rule rne_mono)
    then show ?thesis unfolding fx fy by (intro mult_right_mono) simp_all
  next
    case False
    with k have "?kx + 1 \<le> ?ky" by simp
    then have "(2 :: real) powi (?kx + 1) \<le> 2 powi ?ky" by (rule two_powi_mono)
    moreover have "fl x \<le> 2 powi (?kx + 1)" using assms(1) bx by (rule fl_pos_bounds(2))
    moreover have "2 powi ?ky \<le> fl y" using y by' by (rule fl_pos_bounds(1))
    ultimately show ?thesis by linarith
  qed
qed

lemma fl_mono_neg:
  assumes "y < 0" and "x \<le> y"
  shows "fl x \<le> fl y"
proof -
  let ?kx = "\<lfloor>log 2 \<bar>x\<bar>\<rfloor>" and ?ky = "\<lfloor>log 2 \<bar>y\<bar>\<rfloor>"
  have x: "x < 0" using assms by simp
  have bx: "2 powi ?kx \<le> - x" "- x < 2 powi (?kx + 1)" using binade [of x] x by simp_all
  have by': "2 powi ?ky \<le> - y" "- y < 2 powi (?ky + 1)" using binade [of y] assms(1) by simp_all
  have "log 2 (- y) \<le> log 2 (- x)" using assms by simp
  then have k: "?ky \<le> ?kx" using assms(1) x by (simp add: floor_mono)
  show ?thesis
  proof (cases "?kx = ?ky")
    case True
    let ?u = "(2 :: real) powi (?kx - 52)"
    have fx: "fl x = of_int (rne (x / ?u)) * ?u"
      using bx x by (intro fl_eval) simp_all
    have fy: "fl y = of_int (rne (y / ?u)) * ?u"
      using by' assms(1) unfolding True [symmetric] by (intro fl_eval) simp_all
    have "x / ?u \<le> y / ?u" using assms(2) by (simp add: divide_right_mono)
    then have "rne (x / ?u) \<le> rne (y / ?u)" by (rule rne_mono)
    then show ?thesis unfolding fx fy by (intro mult_right_mono) simp_all
  next
    case False
    with k have "?ky + 1 \<le> ?kx" by simp
    then have "(2 :: real) powi (?ky + 1) \<le> 2 powi ?kx" by (rule two_powi_mono)
    moreover have "fl x \<le> - (2 powi ?kx)" using x bx by (rule fl_neg_bounds(2))
    moreover have "- (2 powi (?ky + 1)) \<le> fl y" using assms(1) by' by (rule fl_neg_bounds(1))
    ultimately show ?thesis by linarith
  qed
qed

lemma fl_mono:
  assumes "x \<le> y"
  shows "fl x \<le> fl y"
proof -
  consider "0 < x" | "y < 0" | "x = 0" "y = 0" | "x = 0" "0 < y" | "x < 0" "y = 0" | "x < 0" "0 < y"
    using assms by linarith
  then show ?thesis
  proof cases
    case 1
    then show ?thesis using assms by (rule fl_mono_pos)
  next
    case 2
    then show ?thesis using assms by (rule fl_mono_neg)
  next
    case 3
    then show ?thesis by simp
  next
    case 4
    then show ?thesis using fl_pos [of y] by (simp add: fl_0)
  next
    case 5
    then show ?thesis using fl_neg [of x] by (simp add: fl_0)
  next
    case 6
    then show ?thesis using fl_neg [of x] fl_pos [of y] by simp
  qed
qed

text \<open>A number with a significand of at most 53 bits is its own rounding.\<close>

lemma fl_exact:
  assumes "\<bar>m\<bar> < 2 ^ 53"
  shows "fl (of_int m * 2 powi e) = of_int m * 2 powi e"
proof (cases "m = 0")
  case True
  then show ?thesis by (simp add: fl_0)
next
  case False
  let ?x = "of_int m * (2 :: real) powi e"
  let ?k = "\<lfloor>log 2 \<bar>?x\<bar>\<rfloor>"
  have x: "?x \<noteq> 0" using False by simp
  have "2 powi ?k \<le> \<bar>?x\<bar>" using binade(1) [OF x] .
  also have "\<bar>?x\<bar> = of_int \<bar>m\<bar> * 2 powi e" by (simp add: abs_mult)
  also have "\<dots> < of_int (2 ^ 53) * 2 powi e"
    using assms by (intro mult_strict_right_mono) simp_all
  also have "\<dots> = 2 powi (53 + e)" by (simp add: power_int_add)
  finally have "?k < 53 + e" by (rule two_powi_less_cancel)
  then obtain d where d: "e = (?k - 52) + int d"
    using zle_iff_zadd [of "?k - 52" e] by auto
  have "?x / 2 powi (?k - 52) = of_int (m * 2 ^ d)"
    by (subst d) (simp add: power_int_add)
  then have "rne (?x / 2 powi (?k - 52)) = m * 2 ^ d" by (simp only: rne_of_int)
  moreover have "fl ?x = of_int (rne (?x / 2 powi (?k - 52))) * 2 powi (?k - 52)"
    using x by (simp add: fl_def Let_def)
  ultimately have "fl ?x = of_int (m * 2 ^ d) * 2 powi (?k - 52)" by simp
  also have "\<dots> = of_int m * 2 powi ((?k - 52) + int d)" by (simp add: power_int_add)
  finally show ?thesis by (simp only: d [symmetric])
qed

lemma fl_of_int: "\<bar>m\<bar> < 2 ^ 53 \<Longrightarrow> fl (of_int m) = of_int m"
  using fl_exact [of m 0] by simp

lemma fl_numeral: "(numeral w :: int) < 2 ^ 53 \<Longrightarrow> fl (numeral w) = numeral w"
  using fl_of_int [of "numeral w"] by simp

lemma fl_neg_numeral: "(numeral w :: int) < 2 ^ 53 \<Longrightarrow> fl (- numeral w) = - numeral w"
  using fl_of_int [of "- numeral w"] by simp

lemma fl_1: "fl 1 = 1"
  using fl_of_int [of 1] by simp

lemma fl_half: "fl (1 / 2) = 1 / 2"
  using fl_exact [of 1 "- 1"] by simp

text \<open>Two roundings that lose their argument.\<close>

lemma fl_below_90: "fl (90 - 1 / 2 ^ 60) = 90"
proof -
  let ?x = "90 - 1 / 2 ^ 60 :: real"
  have "fl ?x = of_int (rne (?x / 2 powi (6 - 52))) * 2 powi (6 - 52)"
    by (rule fl_eval) simp_all
  moreover have "rne (?x / 2 powi (6 - 52)) = 90 * 2 ^ 46"
    by (rule rne_nearest) (simp add: power_int_minus field_simps)
  ultimately show ?thesis by (simp add: power_int_minus)
qed

lemma fl_below_1: "fl (1 / 2 ^ 60 - 1) = - 1"
proof -
  let ?x = "1 / 2 ^ 60 - 1 :: real"
  have "fl ?x = of_int (rne (?x / 2 powi (- 1 - 52))) * 2 powi (- 1 - 52)"
    by (rule fl_eval) (simp_all add: power_int_minus)
  moreover have "rne (?x / 2 powi (- 1 - 52)) = - (2 ^ 53)"
    by (rule rne_nearest) (simp add: power_int_minus field_simps)
  ultimately show ?thesis by (simp add: power_int_minus)
qed

section \<open>The horizon filter\<close>

lemma planet_entry_mem:
  "(name, alt, az) \<in> set (planet_entry eph location t n) \<longleftrightarrow>
     n = name \<and> (\<exists>obj. bodies name = Some obj \<and> to_altaz eph obj location t = Inr (alt, az)) \<and> 0 < alt"
proof (cases "bodies n")
  case None
  then show ?thesis by (auto simp: planet_entry_def)
next
  case (Some obj)
  then show ?thesis
    by (cases "to_altaz eph obj location t") (auto simp: planet_entry_def)
qed

lemma star_entry_mem:
  "(mag, alt, az, hip) \<in> set (star_entry eph location t (h, row)) \<longleftrightarrow>
     h = hip \<and> magnitude row = mag \<and> to_altaz eph (Star row) location t = Inr (alt, az) \<and> 0 < alt"
  by (cases "to_altaz eph (Star row) location t") (auto simp: star_entry_def)

lemma planet_data_mem:
  assumes "planet_loop eph location t names [] = Inr planet_data"
  shows "(name, alt, az) \<in> set planet_data \<longleftrightarrow>
     name \<in> set names \<and>
     (\<exists>obj. bodies name = Some obj \<and> to_altaz eph obj location t = Inr (alt, az)) \<and> 0 < alt"
proof -
  have "planet_data = concat (map (planet_entry eph location t) names)"
    using planet_loop_Inr [OF assms] by simp
  then show ?thesis by (auto simp: planet_entry_mem)
qed

lemma star_data_mem:
  assumes "star_loop eph location t rows [] = Inr star_data"
  shows "(mag, alt, az, hip) \<in> set star_data \<longleftrightarrow>
     (\<exists>row. (hip, row) \<in> set rows \<and> magnitude row = mag \<and>
        to_altaz eph (Star row) location t = Inr (alt, az)) \<and> 0 < alt"
proof -
  have "star_data = concat (map (star_entry eph location t) rows)"
    using star_loop_Inr [OF assms] by simp
  then have "(mag, alt, az, hip) \<in> set star_data \<longleftrightarrow>
      (\<exists>h row. (h, row) \<in> set rows \<and> (mag, alt, az, hip) \<in> set (star_entry eph location t (h, row)))"
    by auto
  then show ?thesis unfolding star_entry_mem by blast
qed

lemma sample_planet_loop:
  "planet_loop sample_eph location t selected_planets [] =
     Inr [(''Venus'', 25, 250), (''Mars'', 90, 0)]"
  by (simp add: selected_planets_def bodies_def planet_ids_def to_altaz_def sample_eph_def)

lemma sample_bright_stars:
  "bright_stars sample_stars =
     [(1, \<lparr>magnitude = 1, other_columns = []\<rparr>),
      (2, \<lparr>magnitude = 4, other_columns = []\<rparr>),
      (4, \<lparr>magnitude = 2, other_columns = []\<rparr>)]"
  by (simp add: bright_stars_def sample_stars_def)

lemma sample_star_loop:
  "star_loop sample_eph location t (bright_stars sample_stars) [] =
     Inr [(1, 60, 45, 1), (2, 60, 45, 4)]"
  by (simp add: sample_bright_stars to_altaz_def sample_eph_def)

lemma sample_sky_map:
  "make_sky_map exp sample_eph sample_stars lat lon year month day hour =
     Inr \<lparr>data = map (star_scatter exp) [(1, 60, 45, 1), (2, 60, 45, 4)]
                @ map planet_scatter [(''Venus'', 25, 250), (''Mars'', 90, 0)],
          layout = sky_layout\<rparr>"
  by (simp only: make_sky_map_def Let_def sample_planet_loop sample_star_loop sum.case chart_eq)

text \<open>
  C1. When the sky map is built, the visible lists hold exactly the projected objects whose
  altitude is strictly positive, and the chart has a trace for these and for no other.
\<close>

theorem visible_iff_altitude_positive:
  assumes "make_sky_map np_exp eph stars lat lon year month day hour = Inr fig"
  shows "\<exists>planet_data star_data.
    planet_loop eph (Topos lat lon) (utc year month day hour 0) selected_planets [] = Inr planet_data
    \<and> star_loop eph (Topos lat lon) (utc year month day hour 0) (bright_stars stars) [] = Inr star_data
    \<and> data fig = map (star_scatter np_exp) star_data @ map planet_scatter planet_data
    \<and> (\<forall>name \<in> set selected_planets. \<exists>obj alt az.
          bodies name = Some obj
          \<and> to_altaz eph obj (Topos lat lon) (utc year month day hour 0) = Inr (alt, az)
          \<and> ((name, alt, az) \<in> set planet_data \<longleftrightarrow> 0 < alt))
    \<and> (\<forall>(hip, row) \<in> set (bright_stars stars). \<exists>alt az.
          to_altaz eph (Star row) (Topos lat lon) (utc year month day hour 0) = Inr (alt, az)
          \<and> ((magnitude row, alt, az, hip) \<in> set star_data \<longleftrightarrow> 0 < alt))
    \<and> (\<forall>name alt az. (name, alt, az) \<in> set planet_data \<longleftrightarrow>
          name \<in> set selected_planets
          \<and> (\<exists>obj. bodies name = Some obj
                \<and> to_altaz eph obj (Topos lat lon) (utc year month day hour 0) = Inr (alt, az))
          \<and> 0 < alt)
    \<and> (\<forall>mag alt az hip. (mag, alt, az, hip) \<in> set star_data \<longleftrightarrow>
          (\<exists>row. (hip, row) \<in> set (bright_stars stars) \<and> magnitude row = mag
                \<and> to_altaz eph (Star row) (Topos lat lon) (utc year month day hour 0) = Inr (alt, az))
          \<and> 0 < alt)"
proof -
  let ?loc = "Topos lat lon" and ?t = "utc year month day hour 0"
  from make_sky_map_Inr [OF assms] obtain planet_data star_data where
    pl: "planet_loop eph ?loc ?t selected_planets [] = Inr planet_data" and
    sl: "star_loop eph ?loc ?t (bright_stars stars) [] = Inr star_data" and
    fig: "fig = \<lparr>data = map (star_scatter np_exp) star_data @ map planet_scatter planet_data, layout = sky_layout\<rparr>"
    by blast
  have pm: "(name, alt, az) \<in> set planet_data \<longleftrightarrow>
      name \<in> set selected_planets
      \<and> (\<exists>obj. bodies name = Some obj \<and> to_altaz eph obj ?loc ?t = Inr (alt, az)) \<and> 0 < alt"
    for name alt az by (rule planet_data_mem [OF pl])
  have sm: "(mag, alt, az, hip) \<in> set star_data \<longleftrightarrow>
      (\<exists>row. (hip, row) \<in> set (bright_stars stars) \<and> magnitude row = mag
            \<and> to_altaz eph (Star row) ?loc ?t = Inr (alt, az)) \<and> 0 < alt"
    for mag alt az hip by (rule star_data_mem [OF sl])
  have p1: "\<exists>obj alt az. bodies name = Some obj \<and> to_altaz eph obj ?loc ?t = Inr (alt, az)
      \<and> ((name, alt, az) \<in> set planet_data \<longleftrightarrow> 0 < alt)"
    if "name \<in> set selected_planets" for name
  proof -
    from planet_loop_projected [OF pl that] obtain obj alt az where
      "bodies name = Some obj" "to_altaz eph obj ?loc ?t = Inr (alt, az)" by blast
    with that show ?thesis by (auto simp: pm)
  qed
  have s1: "\<exists>alt az. to_altaz eph (Star row) ?loc ?t = Inr (alt, az)
      \<and> ((magnitude row, alt, az, hip) \<in> set star_data \<longleftrightarrow> 0 < alt)"
    if "(hip, row) \<in> set (bright_stars stars)" for hip row
  proof -
    from star_loop_projected [OF sl that] obtain alt az where
      "to_altaz eph (Star row) ?loc ?t = Inr (alt, az)" by blast
    with that show ?thesis by (auto simp: sm)
  qed
  from pl sl fig p1 s1 pm sm show ?thesis
    by (intro exI [of _ planet_data] exI [of _ star_data] conjI) (simp_all add: split_beta)
qed

theorem visible_iff_altitude_positive_witness:
  "make_sky_map exp sample_eph sample_stars 0 0 2024 6 21 22 =
     Inr \<lparr>data = map (star_scatter exp) [(1, 60, 45, 1), (2, 60, 45, 4)]
                @ map planet_scatter [(''Venus'', 25, 250), (''Mars'', 90, 0)],
          layout = sky_layout\<rparr>
   \<and> (\<exists>planet_data star_data.
        planet_loop sample_eph (Topos 0 0) (utc 2024 6 21 22 0) selected_planets [] = Inr planet_data
        \<and> star_loop sample_eph (Topos 0 0) (utc 2024 6 21 22 0) (bright_stars sample_stars) []
            = Inr star_data
        \<and> (''Venus'', 25, 250) \<in> set planet_data
        \<and> (''Moon'', 0, 90) \<notin> set planet_data
        \<and> (''Sun'', - 20, 300) \<notin> set planet_data
        \<and> (1, 60, 45, 1) \<in> set star_data
        \<and> (4, 0, 10, 2) \<notin> set star_data)"
proof -
  let ?fig = "\<lparr>data = map (star_scatter exp) [(1, 60, 45, 1), (2, 60, 45, 4)]
                @ map planet_scatter [(''Venus'', 25, 250), (''Mars'', 90, 0)],
          layout = sky_layout\<rparr>"
  have h: "make_sky_map exp sample_eph sample_stars 0 0 2024 6 21 22 = Inr ?fig"
    by (rule sample_sky_map)
  from visible_iff_altitude_positive [OF h] obtain planet_data star_data where
    pl: "planet_loop sample_eph (Topos 0 0) (utc 2024 6 21 22 0) selected_planets [] = Inr planet_data"
    and sl: "star_loop sample_eph (Topos 0 0) (utc 2024 6 21 22 0) (bright_stars sample_stars) []
               = Inr star_data"
    and pm: "\<And>name alt az. (name, alt, az) \<in> set planet_data \<longleftrightarrow>
          name \<in> set selected_planets
          \<and> (\<exists>obj. bodies name = Some obj
                \<and> to_altaz sample_eph obj (Topos 0 0) (utc 2024 6 21 22 0) = Inr (alt, az))
          \<and> 0 < alt"
    and sm: "\<And>mag alt az hip. (mag, alt, az, hip) \<in> set star_data \<longleftrightarrow>
          (\<exists>row. (hip, row) \<in> set (bright_stars sample_stars) \<and> magnitude row = mag
                \<and> to_altaz sample_eph (Star row) (Topos 0 0) (utc 2024 6 21 22 0) = Inr (alt, az))
          \<and> 0 < alt"
    by blast
  have "(''Venus'', 25, 250) \<in> set planet_data"
    unfolding pm by (simp add: selected_planets_def bodies_def planet_ids_def to_altaz_def sample_eph_def)
  moreover have "(''Moon'', 0, 90) \<notin> set planet_data" unfolding pm by simp
  moreover have "(''Sun'', - 20, 300) \<notin> set planet_data" unfolding pm by simp
  moreover have "(1, 60, 45, 1) \<in> set star_data"
    unfolding sm by (simp add: sample_bright_stars to_altaz_def sample_eph_def)
  moreover have "(4, 0, 10, 2) \<notin> set star_data" unfolding sm by simp
  ultimately show ?thesis using h pl sl by blast
qed

section \<open>The magnitude pre-filter\<close>

lemma bright_stars_mem:
  "(hip, row) \<in> set (bright_stars stars) \<longleftrightarrow> (hip, row) \<in> set stars \<and> magnitude row < 6"
  by (auto simp: bright_stars_def)

text \<open>
  C2. Only catalogue rows of magnitude below 6 are projected: the map does not depend on what
  the ephemeris would answer (a position at any altitude, or an exception) for a star of
  magnitude 6 or more, and every star that is kept has magnitude below 6.
\<close>

theorem magnitude_prefilter:
  assumes "\<forall>n. eph (Topos lat lon) (utc year month day hour 0) (Body n)
                = eph' (Topos lat lon) (utc year month day hour 0) (Body n)"
    and "\<forall>(hip, row) \<in> set stars. magnitude row < 6 \<longrightarrow>
            eph (Topos lat lon) (utc year month day hour 0) (Star row)
              = eph' (Topos lat lon) (utc year month day hour 0) (Star row)"
  shows "make_sky_map np_exp eph stars lat lon year month day hour
           = make_sky_map np_exp eph' stars lat lon year month day hour
     \<and> (\<forall>star_data.
          star_loop eph (Topos lat lon) (utc year month day hour 0) (bright_stars stars) []
            = Inr star_data \<longrightarrow>
          (\<forall>(mag, alt, az, hip) \<in> set star_data. mag < 6 \<and> 0 < alt))
     \<and> (\<forall>(hip, row) \<in> set (bright_stars stars). magnitude row < 6)
     \<and> (\<forall>(hip, row) \<in> set stars. 6 \<le> magnitude row \<longrightarrow> (hip, row) \<notin> set (bright_stars stars))"
proof -
  let ?loc = "Topos lat lon" and ?t = "utc year month day hour 0"
  have pe: "planet_loop eph ?loc ?t selected_planets [] = planet_loop eph' ?loc ?t selected_planets []"
    by (rule planet_loop_cong) (simp add: assms(1))
  have se: "star_loop eph ?loc ?t (bright_stars stars) []
      = star_loop eph' ?loc ?t (bright_stars stars) []"
    using assms(2) by (intro star_loop_cong) (auto simp: bright_stars_mem)
  have "make_sky_map np_exp eph stars lat lon year month day hour
           = make_sky_map np_exp eph' stars lat lon year month day hour"
    unfolding make_sky_map_def Let_def pe se by (rule refl)
  moreover have "mag < 6 \<and> 0 < alt"
    if "star_loop eph ?loc ?t (bright_stars stars) [] = Inr star_data"
      and "(mag, alt, az, hip) \<in> set star_data" for star_data mag alt az hip
    using that(2) unfolding star_data_mem [OF that(1)] by (auto simp: bright_stars_mem)
  ultimately show ?thesis
    by (auto simp: bright_stars_mem)
qed

lemma sample_faint_sky_map:
  "make_sky_map exp sample_eph_faint sample_stars lat lon year month day hour =
     Inr \<lparr>data = map (star_scatter exp) [(1, 60, 45, 1), (2, 60, 45, 4)]
                @ map planet_scatter [(''Venus'', 25, 250), (''Mars'', 90, 0)],
          layout = sky_layout\<rparr>"
proof -
  have "planet_loop sample_eph_faint location t selected_planets [] =
     Inr [(''Venus'', 25, 250), (''Mars'', 90, 0)]" for location t
    by (simp add: selected_planets_def bodies_def planet_ids_def to_altaz_def
        sample_eph_def sample_eph_faint_def)
  moreover have "star_loop sample_eph_faint location t (bright_stars sample_stars) [] =
     Inr [(1, 60, 45, 1), (2, 60, 45, 4)]" for location t
    by (simp add: sample_bright_stars to_altaz_def sample_eph_def sample_eph_faint_def)
  ultimately show ?thesis
    by (simp only: make_sky_map_def Let_def sum.case chart_eq)
qed

theorem magnitude_prefilter_witness:
  "sample_eph (Topos 0 0) (utc 2024 6 21 22 0) (Star \<lparr>magnitude = 6, other_columns = []\<rparr>) = None
   \<and> sample_eph_faint (Topos 0 0) (utc 2024 6 21 22 0) (Star \<lparr>magnitude = 6, other_columns = []\<rparr>)
       = Some (45, 0, 1)
   \<and> (3, \<lparr>magnitude = 6, other_columns = []\<rparr>) \<in> set sample_stars
   \<and> (3, \<lparr>magnitude = 6, other_columns = []\<rparr>) \<notin> set (bright_stars sample_stars)
   \<and> star_loop sample_eph (Topos 0 0) (utc 2024 6 21 22 0) (bright_stars sample_stars) []
       = Inr [(1, 60, 45, 1), (2, 60, 45, 4)]
   \<and> make_sky_map exp sample_eph sample_stars 0 0 2024 6 21 22
       = make_sky_map exp sample_eph_faint sample_stars 0 0 2024 6 21 22"
proof -
  have a: "\<forall>n. sample_eph (Topos 0 0) (utc 2024 6 21 22 0) (Body n)
      = sample_eph_faint (Topos 0 0) (utc 2024 6 21 22 0) (Body n)"
    by (simp add: sample_eph_faint_def)
  have b: "\<forall>(hip, row) \<in> set sample_stars. magnitude row < 6 \<longrightarrow>
      sample_eph (Topos 0 0) (utc 2024 6 21 22 0) (Star row)
      = sample_eph_faint (Topos 0 0) (utc 2024 6 21 22 0) (Star row)"
    by (simp add: sample_eph_faint_def sample_stars_def)
  have c: "(3, \<lparr>magnitude = 6, other_columns = []\<rparr>) \<in> set sample_stars"
    by (simp add: sample_stars_def)
  note m = magnitude_prefilter [of sample_eph 0 0 2024 6 21 22 sample_eph_faint sample_stars exp, OF a b]
  from m have "make_sky_map exp sample_eph sample_stars 0 0 2024 6 21 22
       = make_sky_map exp sample_eph_faint sample_stars 0 0 2024 6 21 22" by blast
  moreover from m c have "(3, \<lparr>magnitude = 6, other_columns = []\<rparr>) \<notin> set (bright_stars sample_stars)"
    by fastforce
  ultimately show ?thesis
    using c by (simp add: sample_star_loop) (simp add: sample_eph_def sample_eph_faint_def)
qed

section \<open>Plotted coordinates\<close>

lemma star_scatter_polar:
  "r (star_scatter np_exp (mag, alt, az, hip)) = [fsub 90 alt]
   \<and> theta (star_scatter np_exp (mag, alt, az, hip)) = [az]"
  by (simp add: star_scatter_def)

lemma planet_scatter_polar:
  "r (planet_scatter (name, alt, az)) = [fsub 90 alt] \<and> theta (planet_scatter (name, alt, az)) = [az]"
  by (simp add: planet_scatter_def)

lemma fsub_90_le: "0 \<le> alt \<Longrightarrow> fsub 90 alt \<le> 90"
proof -
  assume "0 \<le> alt"
  then have "fl (90 - alt) \<le> fl 90" by (intro fl_mono) simp
  then show ?thesis by (simp add: fsub_def fl_numeral)
qed

lemma fsub_90_ge: "alt \<le> 90 \<Longrightarrow> 0 \<le> fsub 90 alt"
proof -
  assume "alt \<le> 90"
  then have "fl 0 \<le> fl (90 - alt)" by (intro fl_mono) simp
  then show ?thesis by (simp add: fsub_def fl_0)
qed

lemma fsub_90_90: "fsub 90 90 = 0"
  by (simp add: fsub_def fl_0)

lemma fsub_90_grazing: "fsub 90 (1 / 2 ^ 60) = 90"
  unfolding fsub_def by (rule fl_below_90)

lemma grazing_planet_loop:
  "planet_loop grazing_eph location t selected_planets [] =
     Inr [(''Mercury'', 1 / 2 ^ 60, 180), (''Venus'', 1 / 2 ^ 60, 180), (''Mars'', 1 / 2 ^ 60, 180),
          (''Moon'', 1 / 2 ^ 60, 180), (''Sun'', 1 / 2 ^ 60, 180)]"
  by (simp add: selected_planets_def bodies_def planet_ids_def to_altaz_def grazing_eph_def)

lemma grazing_star_loop:
  "star_loop grazing_eph location t (bright_stars sample_stars) [] =
     Inr [(1, 1 / 2 ^ 60, 180, 1), (4, 1 / 2 ^ 60, 180, 2), (2, 1 / 2 ^ 60, 180, 4)]"
  by (simp add: sample_bright_stars to_altaz_def grazing_eph_def)

lemma grazing_sky_map:
  "make_sky_map np_exp grazing_eph sample_stars lat lon year month day hour =
     Inr \<lparr>data = map (star_scatter np_exp)
                  [(1, 1 / 2 ^ 60, 180, 1), (4, 1 / 2 ^ 60, 180, 2), (2, 1 / 2 ^ 60, 180, 4)]
                @ map planet_scatter
                  [(''Mercury'', 1 / 2 ^ 60, 180), (''Venus'', 1 / 2 ^ 60, 180),
                   (''Mars'', 1 / 2 ^ 60, 180), (''Moon'', 1 / 2 ^ 60, 180),
                   (''Sun'', 1 / 2 ^ 60, 180)],
          layout = sky_layout\<rparr>"
  by (simp only: make_sky_map_def Let_def grazing_planet_loop grazing_star_loop sum.case chart_eq)

text \<open>
  C3, as stated: under an altitude in \<open>(0, 90]\<close> the plotted radius lies in \<open>[0, 90)\<close>. It
  does not: the subtraction of line 76 and line 94 is a float64 subtraction, and for an
  object at altitude \<open>2^-60\<close>, which is above the horizon and is drawn, it returns 90.
\<close>

theorem radius_90_above_horizon:
  "make_sky_map exp grazing_eph sample_stars 0 0 2024 6 21 22 =
     Inr \<lparr>data = map (star_scatter exp)
                  [(1, 1 / 2 ^ 60, 180, 1), (4, 1 / 2 ^ 60, 180, 2), (2, 1 / 2 ^ 60, 180, 4)]
                @ map planet_scatter
                  [(''Mercury'', 1 / 2 ^ 60, 180), (''Venus'', 1 / 2 ^ 60, 180),
                   (''Mars'', 1 / 2 ^ 60, 180), (''Moon'', 1 / 2 ^ 60, 180),
                   (''Sun'', 1 / 2 ^ 60, 180)],
          layout = sky_layout\<rparr>
   \<and> (0 :: real) < 1 / 2 ^ 60
   \<and> (1 / 2 ^ 60 :: real) \<le> 90
   \<and> r (star_scatter exp (1, 1 / 2 ^ 60, 180, 1)) = [90]
   \<and> r (planet_scatter (''Mercury'', 1 / 2 ^ 60, 180)) = [90]
   \<and> \<not> hd (r (planet_scatter (''Mercury'', 1 / 2 ^ 60, 180))) < 90"
proof (intro conjI)
  show "r (star_scatter exp (1, 1 / 2 ^ 60, 180, 1)) = [90]"
    by (simp only: star_scatter_polar fsub_90_grazing)
  show p: "r (planet_scatter (''Mercury'', 1 / 2 ^ 60, 180)) = [90]"
    by (simp only: planet_scatter_polar fsub_90_grazing)
  show "\<not> hd (r (planet_scatter (''Mercury'', 1 / 2 ^ 60, 180))) < 90"
    unfolding p by simp
qed (simp_all only: grazing_sky_map, simp_all)

text \<open>
  C3, amended: every trace of the chart is plotted at the radius that the float64
  subtraction of its altitude from 90 returns and at the angle of its azimuth. The altitude
  of a plotted object is positive, and the radius is at most 90 (it is 90 for the smallest
  altitudes); it is at least 0 when the altitude is at most 90, and 0 at the zenith.
\<close>

theorem plotted_radius_and_angle:
  assumes "make_sky_map np_exp eph stars lat lon year month day hour = Inr fig"
  shows "\<exists>planet_data star_data.
    planet_loop eph (Topos lat lon) (utc year month day hour 0) selected_planets [] = Inr planet_data
    \<and> star_loop eph (Topos lat lon) (utc year month day hour 0) (bright_stars stars) [] = Inr star_data
    \<and> map (\<lambda>tr. (r tr, theta tr)) (data fig) =
        map (\<lambda>(mag, alt, az, hip). ([fsub 90 alt], [az])) star_data
        @ map (\<lambda>(name, alt, az). ([fsub 90 alt], [az])) planet_data
    \<and> (\<forall>tr \<in> set (data fig). \<exists>alt az.
          r tr = [fsub 90 alt] \<and> theta tr = [az] \<and> 0 < alt \<and> fsub 90 alt \<le> 90
          \<and> (alt \<le> 90 \<longrightarrow> 0 \<le> fsub 90 alt)
          \<and> (alt = 90 \<longrightarrow> r tr = [0]))"
proof -
  let ?loc = "Topos lat lon" and ?t = "utc year month day hour 0"
  from make_sky_map_Inr [OF assms] obtain planet_data star_data where
    pl: "planet_loop eph ?loc ?t selected_planets [] = Inr planet_data" and
    sl: "star_loop eph ?loc ?t (bright_stars stars) [] = Inr star_data" and
    fig: "fig = \<lparr>data = map (star_scatter np_exp) star_data @ map planet_scatter planet_data,
                 layout = sky_layout\<rparr>"
    by blast
  have coords: "map (\<lambda>tr. (r tr, theta tr)) (data fig) =
        map (\<lambda>(mag, alt, az, hip). ([fsub 90 alt], [az])) star_data
        @ map (\<lambda>(name, alt, az). ([fsub 90 alt], [az])) planet_data"
    by (simp add: fig star_scatter_def planet_scatter_def split_beta)
  have range: "0 < alt \<and> fsub 90 alt \<le> 90 \<and> (alt \<le> 90 \<longrightarrow> 0 \<le> fsub 90 alt)
      \<and> (alt = 90 \<longrightarrow> [fsub 90 alt] = [0])" if "0 < alt" for alt
    using that fsub_90_le [of alt] fsub_90_ge [of alt] by (simp add: fsub_90_90)
  have each: "\<exists>alt az. r tr = [fsub 90 alt] \<and> theta tr = [az] \<and> 0 < alt \<and> fsub 90 alt \<le> 90
          \<and> (alt \<le> 90 \<longrightarrow> 0 \<le> fsub 90 alt) \<and> (alt = 90 \<longrightarrow> r tr = [0])"
    if "tr \<in> set (data fig)" for tr
  proof -
    from that fig consider
      (star) s where "s \<in> set star_data" "tr = star_scatter np_exp s"
      | (planet) p where "p \<in> set planet_data" "tr = planet_scatter p"
      by auto
    then show ?thesis
    proof cases
      case star
      obtain mag alt az hip where s: "s = (mag, alt, az, hip)" by (cases s)
      with star(1) have "0 < alt" by (simp add: star_data_mem [OF sl])
      with star(2) s range [of alt] show ?thesis
        by (intro exI [of _ alt] exI [of _ az]) (simp add: star_scatter_polar)
    next
      case planet
      obtain name alt az where p: "p = (name, alt, az)" by (cases p)
      with planet(1) have "0 < alt" by (simp add: planet_data_mem [OF pl])
      with planet(2) p range [of alt] show ?thesis
        by (intro exI [of _ alt] exI [of _ az]) (simp add: planet_scatter_polar)
    qed
  qed
  from pl sl coords each show ?thesis by blast
qed

theorem plotted_radius_and_angle_witness:
  "make_sky_map exp sample_eph sample_stars 0 0 2024 6 21 22 =
     Inr \<lparr>data = map (star_scatter exp) [(1, 60, 45, 1), (2, 60, 45, 4)]
                @ map planet_scatter [(''Venus'', 25, 250), (''Mars'', 90, 0)],
          layout = sky_layout\<rparr>
   \<and> map (\<lambda>tr. (r tr, theta tr))
        (data \<lparr>data = map (star_scatter exp) [(1, 60, 45, 1), (2, 60, 45, 4)]
                @ map planet_scatter [(''Venus'', 25, 250), (''Mars'', 90, 0)],
          layout = sky_layout\<rparr>)
       = [([30], [45]), ([30], [45]), ([65], [250]), ([0], [0])]"
proof -
  let ?fig = "\<lparr>data = map (star_scatter exp) [(1, 60, 45, 1), (2, 60, 45, 4)]
                @ map planet_scatter [(''Venus'', 25, 250), (''Mars'', 90, 0)],
          layout = sky_layout\<rparr>"
  have h: "make_sky_map exp sample_eph sample_stars 0 0 2024 6 21 22 = Inr ?fig"
    by (rule sample_sky_map)
  from plotted_radius_and_angle [OF h] obtain planet_data star_data where
    pl: "planet_loop sample_eph (Topos 0 0) (utc 2024 6 21 22 0) selected_planets [] = Inr planet_data"
    and sl: "star_loop sample_eph (Topos 0 0) (utc 2024 6 21 22 0) (bright_stars sample_stars) []
               = Inr star_data"
    and c: "map (\<lambda>tr. (r tr, theta tr)) (data ?fig) =
        map (\<lambda>(mag, alt, az, hip). ([fsub 90 alt], [az])) star_data
        @ map (\<lambda>(name, alt, az). ([fsub 90 alt], [az])) planet_data"
    by blast
  from pl have pd: "planet_data = [(''Venus'', 25, 250), (''Mars'', 90, 0)]"
    by (simp add: sample_planet_loop)
  from sl have sd: "star_data = [(1, 60, 45, 1), (2, 60, 45, 4)]"
    by (simp add: sample_star_loop)
  note c
  also have "map (\<lambda>(mag, alt, az, hip). ([fsub 90 alt], [az])) star_data
        @ map (\<lambda>(name, alt, az). ([fsub 90 alt], [az])) planet_data
      = [([30], [45]), ([30], [45]), ([65], [250]), ([0 :: real], [0 :: real])]"
    unfolding pd sd by (simp add: fsub_def fl_numeral fl_0)
  finally show ?thesis using h by blast
qed

section \<open>The star marker size\<close>

lemma star_marker_size: "size_m (marker (star_scatter np_exp (mag, alt, az, hip))) = star_size np_exp mag"
  by (simp add: star_scatter_def)

lemma star_size_floor: "1 / 2 \<le> star_size np_exp mag"
  by (simp add: star_size_def)

lemma fl_04_pos: "0 < fl 0.4"
  by (rule fl_pos) simp

lemma fl_04_ge: "3 / 8 \<le> fl 0.4"
proof -
  have "fl (3 / 8) \<le> fl 0.4" by (rule fl_mono) simp
  moreover have "fl (3 / 8) = 3 / 8" using fl_exact [of 3 "- 3"] by (simp add: power_int_minus)
  ultimately show ?thesis by simp
qed

text \<open>The size at magnitude 1, where the argument of the exponential is 0.\<close>

lemma star_size_at_1:
  assumes "np_exp 0 = 1"
  shows "star_size np_exp 1 = 12"
  using assms by (simp add: star_size_def fsub_def fmul_def fl_0 fl_numeral)

text \<open>The size at magnitude 20, far below the floor.\<close>

lemma exp_57_8: "(48 :: real) \<le> exp (57 / 8)"
proof -
  have "(89 / 32 :: real) \<le> exp (57 / 32)"
    using exp_ge_add_one_self [of "57 / 32 :: real"] by simp
  then have "(89 / 32 :: real) ^ 4 \<le> exp (57 / 32) ^ 4"
    by (intro power_mono) simp_all
  also have "exp (57 / 32 :: real) ^ 4 = exp (57 / 8)"
    by (simp add: exp_of_nat_mult [symmetric])
  finally show ?thesis by (simp add: power4_eq_xxxx)
qed

lemma star_size_at_20:
  assumes "\<forall>x. np_exp x \<le> 2 * exp x"
  shows "star_size np_exp 20 = 1 / 2"
proof -
  let ?t = "fmul (- fl 0.4) (fsub 20 1.0)"
  have "fsub 20 1.0 = 19" by (simp add: fsub_def fl_numeral)
  then have "?t = fl (- fl 0.4 * 19)" by (simp add: fmul_def)
  also have "\<dots> \<le> fl (- (57 / 8))" using fl_04_ge by (intro fl_mono) simp
  also have "fl (- (57 / 8)) = - (57 / 8)"
    using fl_exact [of "- 57" "- 3"] by (simp add: power_int_minus)
  finally have t: "?t \<le> - (57 / 8)" .
  have "np_exp ?t \<le> 2 * exp ?t" using assms by blast
  also have "\<dots> \<le> 2 * exp (- (57 / 8))" using t by simp
  also have "exp (- (57 / 8) :: real) = 1 / exp (57 / 8)" by (simp add: exp_minus field_simps)
  also have "2 * (1 / exp (57 / 8 :: real)) \<le> 2 * (1 / 48)"
    using exp_57_8 by (intro mult_left_mono divide_left_mono) simp_all
  finally have "12 * np_exp ?t \<le> 1 / 2" by simp
  then have "fl (12 * np_exp ?t) \<le> fl (1 / 2)" by (rule fl_mono)
  then have "fmul 12 (np_exp ?t) \<le> 1 / 2" by (simp add: fmul_def fl_half)
  then show ?thesis by (simp add: star_size_def max_def)
qed

text \<open>The size does not grow with the magnitude when the exponential does not decrease.\<close>

lemma star_size_antimono:
  assumes "mono np_exp" and "m1 \<le> m2"
  shows "star_size np_exp m2 \<le> star_size np_exp m1"
proof -
  have "fsub m1 1.0 \<le> fsub m2 1.0"
    unfolding fsub_def using assms(2) by (intro fl_mono) simp
  then have "- fl 0.4 * fsub m2 1.0 \<le> - fl 0.4 * fsub m1 1.0"
    using fl_04_pos by simp
  then have "fmul (- fl 0.4) (fsub m2 1.0) \<le> fmul (- fl 0.4) (fsub m1 1.0)"
    unfolding fmul_def by (rule fl_mono)
  then have "np_exp (fmul (- fl 0.4) (fsub m2 1.0)) \<le> np_exp (fmul (- fl 0.4) (fsub m1 1.0))"
    by (rule monoD [OF assms(1)])
  then have "fmul 12 (np_exp (fmul (- fl 0.4) (fsub m2 1.0)))
      \<le> fmul 12 (np_exp (fmul (- fl 0.4) (fsub m1 1.0)))"
    unfolding fmul_def by (intro fl_mono) simp
  then show ?thesis unfolding star_size_def by (intro max.mono order_refl)
qed

text \<open>Two magnitudes that the subtraction of line 74 does not tell apart.\<close>

lemma star_size_twins: "star_size np_exp (1 / 2 ^ 60) = star_size np_exp 0"
proof -
  have "fsub (1 / 2 ^ 60) 1.0 = - 1" unfolding fsub_def using fl_below_1 by simp
  moreover have "fsub 0 1.0 = - 1" by (simp add: fsub_def fl_neg_numeral) (use fl_of_int [of "- 1"] in simp)
  ultimately show ?thesis by (simp add: star_size_def)
qed

lemma twin_bright_stars: "bright_stars twin_stars = twin_stars"
  by (simp add: bright_stars_def twin_stars_def)

lemma twin_star_loop:
  "star_loop sample_eph location t (bright_stars twin_stars) [] =
     Inr [(0, 60, 45, 1), (1 / 2 ^ 60, 60, 45, 2)]"
  unfolding twin_bright_stars by (simp add: twin_stars_def to_altaz_def sample_eph_def)

lemma twin_sky_map:
  "make_sky_map np_exp sample_eph twin_stars lat lon year month day hour =
     Inr \<lparr>data = map (star_scatter np_exp) [(0, 60, 45, 1), (1 / 2 ^ 60, 60, 45, 2)]
                @ map planet_scatter [(''Venus'', 25, 250), (''Mars'', 90, 0)],
          layout = sky_layout\<rparr>"
  by (simp only: make_sky_map_def Let_def sample_planet_loop twin_star_loop sum.case chart_eq)

lemma star_trace_size:
  assumes "i < length star_data"
  shows "size_m (marker ((map (star_scatter np_exp) star_data @ map planet_scatter planet_data) ! i))
           = star_size np_exp (fst (star_data ! i))"
proof -
  have "(map (star_scatter np_exp) star_data @ map planet_scatter planet_data) ! i
           = star_scatter np_exp (star_data ! i)"
    using assms by (simp add: nth_append)
  then show ?thesis by (cases "star_data ! i") (simp add: star_marker_size)
qed

text \<open>
  C4. The marker of every star of the chart has the size that line 74 computes from its
  magnitude, \<open>max(0.5, 12 * exp(-0.4 * (m - 1.0)))\<close> in float64 arithmetic. The size is never
  below 0.5; a star of magnitude 1 is drawn with size 12 when the exponential of 0 is 1,
  and the size for magnitude 20 is 0.5 when the library's exponential is at most twice the
  exact one.
\<close>

theorem star_marker_size_formula:
  assumes "make_sky_map np_exp eph stars lat lon year month day hour = Inr fig"
  shows "\<exists>planet_data star_data.
    planet_loop eph (Topos lat lon) (utc year month day hour 0) selected_planets [] = Inr planet_data
    \<and> star_loop eph (Topos lat lon) (utc year month day hour 0) (bright_stars stars) [] = Inr star_data
    \<and> data fig = map (star_scatter np_exp) star_data @ map planet_scatter planet_data
    \<and> map (\<lambda>tr. size_m (marker tr)) (take (length star_data) (data fig)) =
        map (\<lambda>(mag, alt, az, hip). max 0.5 (fmul 12 (np_exp (fmul (- fl 0.4) (fsub mag 1.0)))))
          star_data
    \<and> (\<forall>i < length star_data. 0.5 \<le> size_m (marker (data fig ! i)))
    \<and> (np_exp 0 = 1 \<longrightarrow>
         (\<forall>i < length star_data. fst (star_data ! i) = 1 \<longrightarrow> size_m (marker (data fig ! i)) = 12))
    \<and> (\<forall>m. 0.5 \<le> star_size np_exp m)
    \<and> (np_exp 0 = 1 \<longrightarrow> star_size np_exp 1 = 12)
    \<and> ((\<forall>x. np_exp x \<le> 2 * exp x) \<longrightarrow> star_size np_exp 20 = 0.5)"
proof -
  let ?loc = "Topos lat lon" and ?t = "utc year month day hour 0"
  from make_sky_map_Inr [OF assms] obtain planet_data star_data where
    pl: "planet_loop eph ?loc ?t selected_planets [] = Inr planet_data" and
    sl: "star_loop eph ?loc ?t (bright_stars stars) [] = Inr star_data" and
    fig: "fig = \<lparr>data = map (star_scatter np_exp) star_data @ map planet_scatter planet_data,
                 layout = sky_layout\<rparr>"
    by blast
  have d: "data fig = map (star_scatter np_exp) star_data @ map planet_scatter planet_data"
    by (simp add: fig)
  have sizes: "map (\<lambda>tr. size_m (marker tr)) (take (length star_data) (data fig)) =
        map (\<lambda>(mag, alt, az, hip). max 0.5 (fmul 12 (np_exp (fmul (- fl 0.4) (fsub mag 1.0)))))
          star_data"
    by (simp add: d star_scatter_def star_size_def split_beta)
  have nth: "size_m (marker (data fig ! i)) = star_size np_exp (fst (star_data ! i))"
    if "i < length star_data" for i
    using that unfolding d by (rule star_trace_size)
  have floor: "\<forall>i < length star_data. 0.5 \<le> size_m (marker (data fig ! i))"
    using star_size_floor by (simp add: nth)
  have one: "np_exp 0 = 1 \<longrightarrow>
      (\<forall>i < length star_data. fst (star_data ! i) = 1 \<longrightarrow> size_m (marker (data fig ! i)) = 12)"
    by (simp add: nth star_size_at_1)
  have "\<forall>m. 0.5 \<le> star_size np_exp m" using star_size_floor by simp
  moreover have "np_exp 0 = 1 \<longrightarrow> star_size np_exp 1 = 12" by (simp add: star_size_at_1)
  moreover have "(\<forall>x. np_exp x \<le> 2 * exp x) \<longrightarrow> star_size np_exp 20 = 0.5"
    using star_size_at_20 [of np_exp] by simp
  ultimately show ?thesis using pl sl d sizes floor one by blast
qed

theorem star_marker_size_formula_witness:
  "make_sky_map exp sample_eph sample_stars 0 0 2024 6 21 22 =
     Inr \<lparr>data = map (star_scatter exp) [(1, 60, 45, 1), (2, 60, 45, 4)]
                @ map planet_scatter [(''Venus'', 25, 250), (''Mars'', 90, 0)],
          layout = sky_layout\<rparr>
   \<and> exp (0 :: real) = 1
   \<and> (\<forall>x :: real. exp x \<le> 2 * exp x)
   \<and> size_m (marker (star_scatter exp (1, 60, 45, 1))) = 12
   \<and> 0.5 \<le> size_m (marker (star_scatter exp (2, 60, 45, 4)))
   \<and> star_size exp 20 = 0.5"
proof -
  let ?fig = "\<lparr>data = map (star_scatter exp) [(1, 60, 45, 1), (2, 60, 45, 4)]
                @ map planet_scatter [(''Venus'', 25, 250), (''Mars'', 90, 0)],
          layout = sky_layout\<rparr>"
  have h: "make_sky_map exp sample_eph sample_stars 0 0 2024 6 21 22 = Inr ?fig"
    by (rule sample_sky_map)
  have e0: "exp (0 :: real) = 1" by simp
  have e2: "\<forall>x :: real. exp x \<le> 2 * exp x" by simp
  from star_marker_size_formula [OF h] obtain planet_data star_data where
    sl: "star_loop sample_eph (Topos 0 0) (utc 2024 6 21 22 0) (bright_stars sample_stars) []
           = Inr star_data"
    and d: "data ?fig = map (star_scatter exp) star_data @ map planet_scatter planet_data"
    and fl: "\<forall>i < length star_data. 0.5 \<le> size_m (marker (data ?fig ! i))"
    and one: "exp (0 :: real) = 1 \<longrightarrow>
      (\<forall>i < length star_data. fst (star_data ! i) = 1 \<longrightarrow> size_m (marker (data ?fig ! i)) = 12)"
    and twenty: "(\<forall>x :: real. exp x \<le> 2 * exp x) \<longrightarrow> star_size exp 20 = 0.5"
    by blast
  from sl have sd: "star_data = [(1, 60, 45, 1), (2, 60, 45, 4)]"
    by (simp add: sample_star_loop)
  from one [unfolded sd, rule_format, OF e0, of 0]
  have a: "size_m (marker (star_scatter exp (1, 60, 45, 1))) = 12" by simp
  from fl [unfolded sd, rule_format, of 1]
  have b: "0.5 \<le> size_m (marker (star_scatter exp (2, 60, 45, 4)))" by simp
  from twenty e2 have c: "star_size exp 20 = 0.5" by blast
  from h e0 e2 a b c show ?thesis by (intro conjI)
qed

text \<open>
  C5, as stated: for magnitudes \<open>m1 < m2\<close> the size computed for \<open>m1\<close> is strictly greater
  than the size computed for \<open>m2\<close>. It is not: two stars of the magnitudes 0 and \<open>2^-60\<close>,
  both bright enough to be drawn, are given the same size, because the float64 subtraction
  \<open>mag - 1.0\<close> returns \<open>-1\<close> for both, whatever the exponential is.
\<close>

theorem equal_sizes_for_distinct_magnitudes:
  "make_sky_map exp sample_eph twin_stars 0 0 2024 6 21 22 =
     Inr \<lparr>data = map (star_scatter exp) [(0, 60, 45, 1), (1 / 2 ^ 60, 60, 45, 2)]
                @ map planet_scatter [(''Venus'', 25, 250), (''Mars'', 90, 0)],
          layout = sky_layout\<rparr>
   \<and> (0 :: real) < 1 / 2 ^ 60
   \<and> \<not> size_m (marker (star_scatter exp (1 / 2 ^ 60, 60, 45, 2)))
         < size_m (marker (star_scatter exp (0, 60, 45, 1)))"
proof (intro conjI)
  show "\<not> size_m (marker (star_scatter exp (1 / 2 ^ 60, 60, 45, 2)))
         < size_m (marker (star_scatter exp (0, 60, 45, 1)))"
    unfolding star_marker_size star_size_twins by (rule less_irrefl)
qed (simp_all add: twin_sky_map)

text \<open>
  C5, amended: for magnitudes \<open>m1 < m2\<close> the size computed for \<open>m1\<close> is greater than or
  equal to the size computed for \<open>m2\<close>, for the sizes of line 74 in general and for any two
  stars of a chart, provided the library's exponential is monotone.
\<close>

theorem star_size_nonincreasing:
  assumes "mono np_exp"
    and "make_sky_map np_exp eph stars lat lon year month day hour = Inr fig"
  shows "\<exists>planet_data star_data.
    planet_loop eph (Topos lat lon) (utc year month day hour 0) selected_planets [] = Inr planet_data
    \<and> star_loop eph (Topos lat lon) (utc year month day hour 0) (bright_stars stars) [] = Inr star_data
    \<and> data fig = map (star_scatter np_exp) star_data @ map planet_scatter planet_data
    \<and> (\<forall>i < length star_data. \<forall>j < length star_data.
          fst (star_data ! i) < fst (star_data ! j) \<longrightarrow>
          size_m (marker (data fig ! j)) \<le> size_m (marker (data fig ! i)))
    \<and> (\<forall>m1 m2. m1 < m2 \<longrightarrow> star_size np_exp m2 \<le> star_size np_exp m1)"
proof -
  let ?loc = "Topos lat lon" and ?t = "utc year month day hour 0"
  from make_sky_map_Inr [OF assms(2)] obtain planet_data star_data where
    pl: "planet_loop eph ?loc ?t selected_planets [] = Inr planet_data" and
    sl: "star_loop eph ?loc ?t (bright_stars stars) [] = Inr star_data" and
    fig: "fig = \<lparr>data = map (star_scatter np_exp) star_data @ map planet_scatter planet_data,
                 layout = sky_layout\<rparr>"
    by blast
  have d: "data fig = map (star_scatter np_exp) star_data @ map planet_scatter planet_data"
    by (simp add: fig)
  have nth: "size_m (marker (data fig ! i)) = star_size np_exp (fst (star_data ! i))"
    if "i < length star_data" for i
    using that unfolding d by (rule star_trace_size)
  have gen: "\<forall>m1 m2. m1 < m2 \<longrightarrow> star_size np_exp m2 \<le> star_size np_exp m1"
    using star_size_antimono [OF assms(1)] by simp
  then have "\<forall>i < length star_data. \<forall>j < length star_data.
          fst (star_data ! i) < fst (star_data ! j) \<longrightarrow>
          size_m (marker (data fig ! j)) \<le> size_m (marker (data fig ! i))"
    by (simp add: nth)
  with pl sl d gen show ?thesis by blast
qed

theorem star_size_nonincreasing_witness:
  "mono (exp :: real \<Rightarrow> real)
   \<and> make_sky_map exp sample_eph sample_stars 0 0 2024 6 21 22 =
       Inr \<lparr>data = map (star_scatter exp) [(1, 60, 45, 1), (2, 60, 45, 4)]
                  @ map planet_scatter [(''Venus'', 25, 250), (''Mars'', 90, 0)],
            layout = sky_layout\<rparr>
   \<and> (1 :: real) < 2
   \<and> size_m (marker (star_scatter exp (2, 60, 45, 4))) \<le> size_m (marker (star_scatter exp (1, 60, 45, 1)))"
proof -
  let ?fig = "\<lparr>data = map (star_scatter exp) [(1, 60, 45, 1), (2, 60, 45, 4)]
                @ map planet_scatter [(''Venus'', 25, 250), (''Mars'', 90, 0)],
          layout = sky_layout\<rparr>"
  have m: "mono (exp :: real \<Rightarrow> real)" by (simp add: mono_def)
  have h: "make_sky_map exp sample_eph sample_stars 0 0 2024 6 21 22 = Inr ?fig"
    by (rule sample_sky_map)
  from star_size_nonincreasing [OF m h] obtain planet_data star_data where
    sl: "star_loop sample_eph (Topos 0 0) (utc 2024 6 21 22 0) (bright_stars sample_stars) []
           = Inr star_data"
    and o: "\<forall>i < length star_data. \<forall>j < length star_data.
          fst (star_data ! i) < fst (star_data ! j) \<longrightarrow>
          size_m (marker (data ?fig ! j)) \<le> size_m (marker (data ?fig ! i))"
    by blast
  from sl have sd: "star_data = [(1, 60, 45, 1), (2, 60, 45, 4)]"
    by (simp add: sample_star_loop)
  from o [unfolded sd, rule_format, of 0 1]
  have "size_m (marker (data ?fig ! 1)) \<le> size_m (marker (data ?fig ! 0))"
    by simp
  then have "size_m (marker (star_scatter exp (2, 60, 45, 4)))
      \<le> size_m (marker (star_scatter exp (1, 60, 45, 1)))" by simp
  with m h show ?thesis by simp
qed

section \<open>Planet markers\<close>


section \<open>Order of the traces\<close>

lemma planet_entry_names: "subseq (map fst (concat (map (planet_entry eph location t) names))) names"
proof (induction names)
  case Nil
  show ?case by simp
next
  case (Cons n names)
  have "planet_entry eph location t n = [] \<or> (\<exists>alt az. planet_entry eph location t n = [(n, alt, az)])"
    by (auto simp: planet_entry_def split: option.splits sum.splits)
  then show ?case using Cons.IH by auto
qed

lemma star_entry_rows:
  "subseq (map (\<lambda>(mag, alt, az, hip). (hip, mag)) (concat (map (star_entry eph location t) rows)))
     (map (\<lambda>(hip, row). (hip, magnitude row)) rows)"
proof (induction rows)
  case Nil
  show ?case by simp
next
  case (Cons x rows)
  obtain hip row where x: "x = (hip, row)" by (cases x)
  have "star_entry eph location t x = []
      \<or> (\<exists>alt az. star_entry eph location t x = [(magnitude row, alt, az, hip)])"
    by (auto simp: star_entry_def x split: sum.splits)
  then show ?case using Cons.IH by (auto simp: x)
qed

lemma bright_stars_subseq:
  "subseq (map (\<lambda>(hip, row). (hip, magnitude row)) (bright_stars stars))
     (map (\<lambda>(hip, row). (hip, magnitude row)) stars)"
  unfolding bright_stars_def by (intro subseq_map subseq_filter_left)

text \<open>
  C9. The chart has one trace per entry of \<open>star_data\<close> followed by one trace per entry of
  \<open>planet_data\<close>, each with a single point. The stars come in the order of the catalogue,
  the planets in the order Mercury, Venus, Mars, Moon, Sun.
\<close>

theorem traces_in_fixed_order:
  assumes "make_sky_map np_exp eph stars lat lon year month day hour = Inr fig"
  shows "\<exists>planet_data star_data.
    planet_loop eph (Topos lat lon) (utc year month day hour 0) selected_planets [] = Inr planet_data
    \<and> star_loop eph (Topos lat lon) (utc year month day hour 0) (bright_stars stars) [] = Inr star_data
    \<and> data fig = map (star_scatter np_exp) star_data @ map planet_scatter planet_data
    \<and> length (data fig) = length star_data + length planet_data
    \<and> subseq (map (\<lambda>(mag, alt, az, hip). (hip, mag)) star_data)
         (map (\<lambda>(hip, row). (hip, magnitude row)) stars)
    \<and> subseq (map fst planet_data) [''Mercury'', ''Venus'', ''Mars'', ''Moon'', ''Sun'']
    \<and> (\<forall>tr \<in> set (data fig). length (r tr) = 1 \<and> length (theta tr) = 1)"
proof -
  let ?loc = "Topos lat lon" and ?t = "utc year month day hour 0"
  from make_sky_map_Inr [OF assms] obtain planet_data star_data where
    pl: "planet_loop eph ?loc ?t selected_planets [] = Inr planet_data" and
    sl: "star_loop eph ?loc ?t (bright_stars stars) [] = Inr star_data" and
    fig: "fig = \<lparr>data = map (star_scatter np_exp) star_data @ map planet_scatter planet_data, layout = sky_layout\<rparr>"
    by blast
  have pd: "planet_data = concat (map (planet_entry eph ?loc ?t) selected_planets)"
    using planet_loop_Inr [OF pl] by simp
  have sd: "star_data = concat (map (star_entry eph ?loc ?t) (bright_stars stars))"
    using star_loop_Inr [OF sl] by simp
  have "subseq (map fst planet_data) selected_planets"
    unfolding pd by (rule planet_entry_names)
  then have po: "subseq (map fst planet_data) [''Mercury'', ''Venus'', ''Mars'', ''Moon'', ''Sun'']"
    by (simp only: selected_planets_def)
  have "subseq (map (\<lambda>(mag, alt, az, hip). (hip, mag)) star_data)
         (map (\<lambda>(hip, row). (hip, magnitude row)) (bright_stars stars))"
    unfolding sd by (rule star_entry_rows)
  then have so: "subseq (map (\<lambda>(mag, alt, az, hip). (hip, mag)) star_data)
         (map (\<lambda>(hip, row). (hip, magnitude row)) stars)"
    using bright_stars_subseq by (rule subseq_order.order_trans)
  have d: "data fig = map (star_scatter np_exp) star_data @ map planet_scatter planet_data"
    by (simp add: fig)
  have one: "length (r tr) = 1 \<and> length (theta tr) = 1" if "tr \<in> set (data fig)" for tr
    using that unfolding d by (auto simp: star_scatter_def planet_scatter_def split_beta)
  have len: "length (data fig) = length star_data + length planet_data"
    by (simp add: d)
  from pl sl d len so po one show ?thesis by blast
qed

theorem traces_in_fixed_order_witness:
  "make_sky_map exp sample_eph sample_stars 0 0 2024 6 21 22 =
     Inr \<lparr>data = [star_scatter exp (1, 60, 45, 1), star_scatter exp (2, 60, 45, 4),
                  planet_scatter (''Venus'', 25, 250), planet_scatter (''Mars'', 90, 0)],
          layout = sky_layout\<rparr>
   \<and> (\<exists>planet_data star_data.
        data \<lparr>data = [star_scatter exp (1, 60, 45, 1), star_scatter exp (2, 60, 45, 4),
                  planet_scatter (''Venus'', 25, 250), planet_scatter (''Mars'', 90, 0)],
          layout = sky_layout\<rparr> = map (star_scatter exp) star_data @ map planet_scatter planet_data
        \<and> map fst planet_data = [''Venus'', ''Mars'']
        \<and> map (\<lambda>(mag, alt, az, hip). hip) star_data = [1, 4]
        \<and> subseq (map fst planet_data) [''Mercury'', ''Venus'', ''Mars'', ''Moon'', ''Sun''])"
proof -
  let ?fig = "\<lparr>data = [star_scatter exp (1, 60, 45, 1), star_scatter exp (2, 60, 45, 4),
                  planet_scatter (''Venus'', 25, 250), planet_scatter (''Mars'', 90, 0)],
          layout = sky_layout\<rparr>"
  have h: "make_sky_map exp sample_eph sample_stars 0 0 2024 6 21 22 = Inr ?fig"
    by (simp add: sample_sky_map)
  from traces_in_fixed_order [OF h] obtain planet_data star_data where
    pl: "planet_loop sample_eph (Topos 0 0) (utc 2024 6 21 22 0) selected_planets [] = Inr planet_data"
    and sl: "star_loop sample_eph (Topos 0 0) (utc 2024 6 21 22 0) (bright_stars sample_stars) []
               = Inr star_data"
    and d: "data ?fig = map (star_scatter exp) star_data @ map planet_scatter planet_data"
    and po: "subseq (map fst planet_data) [''Mercury'', ''Venus'', ''Mars'', ''Moon'', ''Sun'']"
    by blast
  from pl have pd: "planet_data = [(''Venus'', 25, 250), (''Mars'', 90, 0)]"
    by (simp add: sample_planet_loop)
  from sl have sd: "star_data = [(1, 60, 45, 1), (2, 60, 45, 4)]"
    by (simp add: sample_star_loop)
  have pn: "map fst planet_data = [''Venus'', ''Mars'']" by (simp add: pd)
  have sn: "map (\<lambda>(mag, alt, az, hip). hip) star_data = [1, 4]" by (simp add: sd)
  show ?thesis
  proof (intro conjI exI)
    show "make_sky_map exp sample_eph sample_stars 0 0 2024 6 21 22 = Inr ?fig" by (rule h)
    show "data ?fig = map (star_scatter exp) star_data @ map planet_scatter planet_data" by (rule d)
    show "map fst planet_data = [''Venus'', ''Mars'']" by (rule pn)
    show "map (\<lambda>(mag, alt, az, hip). hip) star_data = [1, 4]" by (rule sn)
    show "subseq (map fst planet_data) [''Mercury'', ''Venus'', ''Mars'', ''Moon'', ''Sun'']"
      by (rule po)
  qed
qed

section \<open>An empty sky\<close>

lemma planet_loop_none_visible:
  assumes "\<forall>name \<in> set names. \<exists>obj alt az.
      bodies name = Some obj \<and> to_altaz eph obj location t = Inr (alt, az) \<and> alt \<le> 0"
  shows "planet_loop eph location t names acc = Inr acc"
  using assms
proof (induction names)
  case Nil
  show ?case by simp
next
  case (Cons n names)
  from Cons.prems obtain obj alt az where
    "bodies n = Some obj" "to_altaz eph obj location t = Inr (alt, az)" "alt \<le> 0"
    by auto
  moreover from Cons have "planet_loop eph location t names acc = Inr acc" by simp
  ultimately show ?case by simp
qed

lemma star_loop_none_visible:
  assumes "\<forall>(hip, row) \<in> set rows. \<exists>alt az.
      to_altaz eph (Star row) location t = Inr (alt, az) \<and> alt \<le> 0"
  shows "star_loop eph location t rows acc = Inr acc"
  using assms
proof (induction rows)
  case Nil
  show ?case by simp
next
  case (Cons x rows)
  obtain hip row where x: "x = (hip, row)" by (cases x)
  from Cons.prems x obtain alt az where
    "to_altaz eph (Star row) location t = Inr (alt, az)" "alt \<le> 0"
    by auto
  moreover from Cons have "star_loop eph location t rows acc = Inr acc" by simp
  ultimately show ?case by (simp add: x)
qed

text \<open>
  C10. When the five bodies and all the bright stars are projected to an altitude that is not
  above 0, the construction returns a chart with no trace and the fixed dark layout.
\<close>

theorem empty_sky_chart:
  assumes "\<forall>name \<in> set selected_planets. \<exists>obj alt az.
      bodies name = Some obj
      \<and> to_altaz eph obj (Topos lat lon) (utc year month day hour 0) = Inr (alt, az) \<and> alt \<le> 0"
    and "\<forall>(hip, row) \<in> set (bright_stars stars). \<exists>alt az.
      to_altaz eph (Star row) (Topos lat lon) (utc year month day hour 0) = Inr (alt, az) \<and> alt \<le> 0"
  shows "make_sky_map np_exp eph stars lat lon year month day hour = Inr \<lparr>data = [], layout = sky_layout\<rparr>"
proof -
  have "planet_loop eph (Topos lat lon) (utc year month day hour 0) selected_planets [] = Inr []"
    using assms(1) by (rule planet_loop_none_visible)
  moreover have "star_loop eph (Topos lat lon) (utc year month day hour 0) (bright_stars stars) [] = Inr []"
    using assms(2) by (rule star_loop_none_visible)
  ultimately show ?thesis
    by (simp add: make_sky_map_def update_layout_eq Figure_def)
qed

theorem empty_sky_chart_witness:
  "(\<exists>obj. bodies ''Sun'' = Some obj
        \<and> to_altaz night_eph obj (Topos 0 0) (utc 2024 6 21 22 0) = Inr (- 10, 0))
   \<and> to_altaz night_eph (Star \<lparr>magnitude = 1, other_columns = []\<rparr>) (Topos 0 0) (utc 2024 6 21 22 0)
       = Inr (- 10, 0)
   \<and> make_sky_map exp night_eph sample_stars 0 0 2024 6 21 22 = Inr \<lparr>data = [], layout = sky_layout\<rparr>
   \<and> layout \<lparr>data = [], layout = sky_layout\<rparr> =
       \<lparr>polar = Some
          \<lparr>bgcolor = ''black'',
           radialaxis = \<lparr>visible = False, range_ax = [0, 90], radial_showgrid = False\<rparr>,
           angularaxis =
             \<lparr>direction = ''clockwise'', rotation = 180, showline = False,
              showticklabels = False, angular_showgrid = False\<rparr>\<rparr>,
        showlegend = Some False, paper_bgcolor = Some ''black'', plot_bgcolor = Some ''black''\<rparr>"
proof -
  have a: "\<forall>name \<in> set selected_planets. \<exists>obj alt az.
      bodies name = Some obj
      \<and> to_altaz night_eph obj (Topos 0 0) (utc 2024 6 21 22 0) = Inr (alt, az) \<and> alt \<le> 0"
    by (simp add: selected_planets_def bodies_def planet_ids_def to_altaz_def night_eph_def)
  have b: "\<forall>(hip, row) \<in> set (bright_stars sample_stars). \<exists>alt az.
      to_altaz night_eph (Star row) (Topos 0 0) (utc 2024 6 21 22 0) = Inr (alt, az) \<and> alt \<le> 0"
    by (simp add: to_altaz_def night_eph_def)
  show ?thesis
    using empty_sky_chart [of night_eph 0 0 2024 6 21 22 sample_stars exp, OF a b]
    by (simp add: to_altaz_def night_eph_def bodies_def planet_ids_def sky_layout_def)
qed

section \<open>The request handler\<close>

lemma selected_planets_known: "name \<in> set selected_planets \<Longrightarrow> bodies name \<noteq> None"
  by (auto simp: selected_planets_def bodies_def planet_ids_def)

lemma make_sky_map_Inl:
  assumes "make_sky_map np_exp eph stars lat lon year month day hour = Inl e"
  shows "e = LibraryError"
proof (cases "planet_loop eph (Topos lat lon) (utc year month day hour 0) selected_planets []")
  case (Inl e')
  with assms have "e = e'" by (simp add: make_sky_map_def)
  with planet_loop_Inl [OF Inl] selected_planets_known show ?thesis by auto
next
  case pl: (Inr planet_data)
  show ?thesis
  proof (cases "star_loop eph (Topos lat lon) (utc year month day hour 0) (bright_stars stars) []")
    case (Inl e')
    with assms pl have "e = e'" by (simp add: make_sky_map_def)
    with star_loop_Inl [OF Inl] show ?thesis by simp
  next
    case (Inr star_data)
    with assms pl show ?thesis by (simp add: make_sky_map_def)
  qed
qed

text \<open>
  C8. For a location key that the table \<open>locations\<close> does not have, the handler raises the
  lookup error for that key and returns no chart. For a key that the table has, the lookup
  passes and the handler goes on with the coordinates found: the date is parsed and the sky
  map is built, and no lookup error comes out of the handler.
\<close>

theorem unknown_location_key:
  "(locations city = None \<longrightarrow>
      update_map fromisoformat np_exp eph stars city date hour = Inl (KeyError city))
   \<and> (\<forall>lat lon. locations city = Some (lat, lon) \<longrightarrow>
        update_map fromisoformat np_exp eph stars city date hour =
          (case fromisoformat date of
             None \<Rightarrow> Inl (ValueError date)
           | Some dt \<Rightarrow> make_sky_map np_exp eph stars lat lon (dt_year dt) (dt_month dt) (dt_day dt) hour)
        \<and> (\<forall>k. update_map fromisoformat np_exp eph stars city date hour \<noteq> Inl (KeyError k)))"
proof -
  have "update_map fromisoformat np_exp eph stars city date hour \<noteq> Inl (KeyError k)"
    if "locations city = Some (lat, lon)" for lat lon k
  proof (cases "fromisoformat date")
    case None
    with that show ?thesis by (simp add: update_map_def)
  next
    case (Some dt)
    show ?thesis
    proof
      assume "update_map fromisoformat np_exp eph stars city date hour = Inl (KeyError k)"
      with that Some have
        "make_sky_map np_exp eph stars lat lon (dt_year dt) (dt_month dt) (dt_day dt) hour = Inl (KeyError k)"
        by (simp add: update_map_def)
      then have "KeyError k = LibraryError" by (rule make_sky_map_Inl)
      then show False by simp
    qed
  qed
  then show ?thesis by (auto simp: update_map_def)
qed

lemma locations_Paris: "locations ''Paris'' = Some (48.8566, 2.3522)"
  by (simp add: locations_def)

lemma locations_Atlantis: "locations ''Atlantis'' = None"
  by (simp add: locations_def)

theorem unknown_location_key_witness:
  "locations ''Atlantis'' = None
   \<and> update_map sample_fromisoformat exp sample_eph sample_stars ''Atlantis'' ''2024-06-21'' 22
       = Inl (KeyError ''Atlantis'')
   \<and> locations ''Paris'' = Some (48.8566, 2.3522)
   \<and> update_map sample_fromisoformat exp sample_eph sample_stars ''Paris'' ''2024-06-21'' 22
       = make_sky_map exp sample_eph sample_stars 48.8566 2.3522 2024 6 21 22
   \<and> update_map sample_fromisoformat exp sample_eph sample_stars ''Paris'' ''2024-06-21'' 22
       \<noteq> Inl (KeyError ''Paris'')
   \<and> update_map sample_fromisoformat exp sample_eph sample_stars ''Paris'' ''tomorrow'' 22
       = Inl (ValueError ''tomorrow'')"
proof -
  let ?u = "update_map sample_fromisoformat exp sample_eph sample_stars"
  from unknown_location_key [of "''Atlantis''" sample_fromisoformat exp sample_eph sample_stars "''2024-06-21''" 22]
    locations_Atlantis
  have a: "?u ''Atlantis'' ''2024-06-21'' 22 = Inl (KeyError ''Atlantis'')" by blast
  from unknown_location_key [of "''Paris''" sample_fromisoformat exp sample_eph sample_stars "''2024-06-21''" 22]
    locations_Paris
  have "?u ''Paris'' ''2024-06-21'' 22 =
          (case sample_fromisoformat ''2024-06-21'' of
             None \<Rightarrow> Inl (ValueError ''2024-06-21'')
           | Some dt \<Rightarrow>
               make_sky_map exp sample_eph sample_stars 48.8566 2.3522 (dt_year dt) (dt_month dt) (dt_day dt) 22)"
    and c: "?u ''Paris'' ''2024-06-21'' 22 \<noteq> Inl (KeyError ''Paris'')"
    by blast+
  then have b: "?u ''Paris'' ''2024-06-21'' 22
      = make_sky_map exp sample_eph sample_stars 48.8566 2.3522 2024 6 21 22"
    by (simp add: sample_fromisoformat_def)
  from unknown_location_key [of "''Paris''" sample_fromisoformat exp sample_eph sample_stars "''tomorrow''" 22]
    locations_Paris
  have "?u ''Paris'' ''tomorrow'' 22 =
          (case sample_fromisoformat ''tomorrow'' of
             None \<Rightarrow> Inl (ValueError ''tomorrow'')
           | Some dt \<Rightarrow>
               make_sky_map exp sample_eph sample_stars 48.8566 2.3522 (dt_year dt) (dt_month dt) (dt_day dt) 22)"
    by blast
  then have d: "?u ''Paris'' ''tomorrow'' 22 = Inl (ValueError ''tomorrow'')"
    by (simp add: sample_fromisoformat_def)
  from locations_Atlantis a locations_Paris b c d show ?thesis by (intro conjI)
qed

end
